theory Spec2Isabelle
  imports Complex_Main "HOL-Library.Word" "HOL-Library.AList"
begin

section \<open>Data model of the backtester statistics\<close>

text \<open>
  Amounts and percentages are \<^verbatim>\<open>decimal.Decimal\<close> values: arbitrary-precision
  decimals whose comparisons (\<^verbatim>\<open>GreaterThan\<close>, \<^verbatim>\<open>IsZero\<close>, \<^verbatim>\<open>Equal\<close>) compare the
  numbers they denote. They are modelled by the rationals. A \<^verbatim>\<open>time.Time\<close> is
  modelled by the instant it denotes, so that \<^verbatim>\<open>Equal\<close> is equality and the
  zero value of a declared but unassigned time variable is \<open>0\<close>. Offsets and order
  counts are \<^verbatim>\<open>int64\<close>.
\<close>

type_synonym decimal = rat
type_synonym time = int
type_synonym int64 = "64 word"

text \<open>\<^verbatim>\<open>currency.Pair\<close>: two currency codes and a delimiter. As a map key it is
  compared field by field; its method \<^verbatim>\<open>Equal\<close> is declared outside this
  package and is a parameter of the functions that call it.\<close>

record CurrencyPair =
  Delimiter :: string
  Base :: string
  Quote :: string

text \<open>
  Events reach the statistics through the interface \<^verbatim>\<open>common.EventHandler\<close>.
  The model keeps what the statistics read from an event: its exchange, asset,
  pair, time and offset, and \<open>GetKind\<close>, the case that the type switch of
  \<^verbatim>\<open>applyEventAtOffset\<close> selects for the event's dynamic type (the cases in the
  order of the switch: data event, signal, order, fill, and the default).
\<close>

datatype EventKind = IsDataEvent | IsSignalEvent | IsOrderEvent | IsFillEvent | IsOtherEvent

record Event =
  GetExchange :: string
  GetAssetType :: string
  GetPair :: CurrencyPair
  GetTime :: time
  GetOffset :: int64
  GetKind :: EventKind

text \<open>\<^verbatim>\<open>holdings.Holding\<close> and \<^verbatim>\<open>compliance.Snapshot\<close> are carried around by the
  statistics and never inspected; a few of their fields stand for them.\<close>

record Holding =
  HoldingOffset :: int64
  TotalValue :: decimal

record Snapshot =
  SnapshotOffset :: int64
  Orders :: "decimal list"

text \<open>\<^verbatim>\<open>currencystatistics.EventStore\<close>: one record of a timeline. Its data event
  is set when \<^verbatim>\<open>SetupEventForTime\<close> creates the record and is only ever replaced
  by another event; the other three events are \<^verbatim>\<open>nil\<close> until set.\<close>

record EventStore =
  DataEvent :: Event
  SignalEvent :: "Event option"
  OrderEvent :: "Event option"
  FillEvent :: "Event option"
  Holdings :: Holding
  Transactions :: Snapshot

text \<open>\<^verbatim>\<open>currencystatistics.Swing\<close>, of which the statistics read the percentage.\<close>

record Swing =
  DrawdownPercent :: decimal

text \<open>\<^verbatim>\<open>currencystatistics.CurrencyStatistic\<close>: the timeline of one tuple and
  the results computed for it.\<close>

record CurrencyStatistic =
  Events :: "EventStore list"
  MaxDrawdown :: Swing
  MarketMovement :: decimal
  StrategyMovement :: decimal
  BuyOrders :: int64
  SellOrders :: int64
  FinalHoldings :: Holding
  InitialHoldings :: Holding
  FinalOrders :: Snapshot
  ShowMissingDataWarning :: bool

record FinalResultsHolder =
  Exchange :: string
  Asset :: string
  Pair' :: CurrencyPair
  MaxDrawdown :: Swing
  MarketMovement :: decimal
  StrategyMovement :: decimal

text \<open>
  A Go map is modelled by an association list: \<open>map_of\<close> is the lookup,
  \<open>AList.update\<close> the assignment, and the order of the list is the order in which
  one \<^verbatim>\<open>range\<close> over the map visits its entries, which Go leaves unspecified.
  The statistics nest three maps: exchange name, asset, pair.
\<close>

type_synonym pair_map = "(CurrencyPair \<times> CurrencyStatistic) list"
type_synonym asset_map = "(string \<times> pair_map) list"
type_synonym exchange_map = "(string \<times> asset_map) list"

text \<open>\<^verbatim>\<open>Statistic\<close>, over the type \<open>'r\<close> of the funding report. The outer map is
  \<^verbatim>\<open>nil\<close> in the zero value.\<close>

record 'r Statistic =
  StrategyName :: string
  ExchangeAssetPairStatistics :: "exchange_map option"
  TotalBuyOrders :: int64
  TotalSellOrders :: int64
  TotalOrders :: int64
  BiggestDrawdown :: "FinalResultsHolder option"
  BestStrategyResults :: "FinalResultsHolder option"
  BestMarketMovement :: "FinalResultsHolder option"
  AllStats :: "CurrencyStatistic list"
  WasAnyDataMissing :: bool
  Funding :: 'r

text \<open>Errors returned as values, and the two ways a call can panic.\<close>

datatype error =
    ErrNilEvent
  | ErrNilArguments
  | ErrAlreadyProcessed
  | errExchangeAssetPairStatsUnset
  | errCurrencyStatisticsUnset
  | errUnknownEventType
  | errNoFunds
  | errLessThanMinimum
  | errCannotAllocate
  | errExternal string

datatype panic = IndexOutOfRange | DivisionByZero

datatype failure = Error error | Panic panic

text \<open>The zero value \<^verbatim>\<open>FinalResultsHolder{}\<close>.\<close>

definition zeroPair :: CurrencyPair where
  "zeroPair = \<lparr>Delimiter = [], Base = [], Quote = []\<rparr>"

definition zeroResultsHolder :: FinalResultsHolder where
  "zeroResultsHolder =
     \<lparr>Exchange = [], Asset = [], Pair' = zeroPair,
      MaxDrawdown = \<lparr>DrawdownPercent = 0\<rparr>,
      MarketMovement = 0, StrategyMovement = 0\<rparr>"

section \<open>Selection of the best performers\<close>

text \<open>
  Each selector walks \<^verbatim>\<open>results\<close> with a running \<^verbatim>\<open>result\<close> that starts at a
  pointer to the zero value and is redirected to \<^verbatim>\<open>&results[i]\<close>; the value
  returned is the struct the final pointer refers to. The loop functions take
  the running result and the entries still to visit.

  \<^verbatim>\<open>GetBestMarketPerformer\<close> leaves its loop with \<^verbatim>\<open>break\<close> right after the
  assignment, the other two selectors go on to the end of the slice.
\<close>

fun bestMarketLoop :: "FinalResultsHolder \<Rightarrow> FinalResultsHolder list \<Rightarrow> FinalResultsHolder" where
  "bestMarketLoop result [] = result"
| "bestMarketLoop result (r # rs) =
     (if MarketMovement r > MarketMovement result \<or> MarketMovement result = 0
      then r
      else bestMarketLoop result rs)"

definition GetBestMarketPerformer :: "FinalResultsHolder list \<Rightarrow> FinalResultsHolder" where
  "GetBestMarketPerformer results = bestMarketLoop zeroResultsHolder results"

fun bestStrategyLoop :: "FinalResultsHolder \<Rightarrow> FinalResultsHolder list \<Rightarrow> FinalResultsHolder" where
  "bestStrategyLoop result [] = result"
| "bestStrategyLoop result (r # rs) =
     (if StrategyMovement r > StrategyMovement result \<or> StrategyMovement result = 0
      then bestStrategyLoop r rs
      else bestStrategyLoop result rs)"

definition GetBestStrategyPerformer :: "FinalResultsHolder list \<Rightarrow> FinalResultsHolder" where
  "GetBestStrategyPerformer results = bestStrategyLoop zeroResultsHolder results"

fun biggestDrawdownLoop :: "FinalResultsHolder \<Rightarrow> FinalResultsHolder list \<Rightarrow> FinalResultsHolder" where
  "biggestDrawdownLoop result [] = result"
| "biggestDrawdownLoop result (r # rs) =
     (if DrawdownPercent (MaxDrawdown r) > DrawdownPercent (MaxDrawdown result)
         \<or> DrawdownPercent (MaxDrawdown result) = 0
      then biggestDrawdownLoop r rs
      else biggestDrawdownLoop result rs)"

definition GetTheBiggestDrawdownAcrossCurrencies :: "FinalResultsHolder list \<Rightarrow> FinalResultsHolder" where
  "GetTheBiggestDrawdownAcrossCurrencies results = biggestDrawdownLoop zeroResultsHolder results"

text \<open>
  The selection rule in the words of the specification, for any metric: a
  running best that starts at the zero value and is replaced by the candidate
  whenever the candidate's metric is strictly greater than the running best's
  or the running best's metric is exactly zero.
\<close>

definition replaceBest :: "(FinalResultsHolder \<Rightarrow> decimal) \<Rightarrow> FinalResultsHolder \<Rightarrow> FinalResultsHolder \<Rightarrow> FinalResultsHolder" where
  "replaceBest metric best candidate =
     (if metric candidate > metric best \<or> metric best = 0 then candidate else best)"

definition selectBest :: "(FinalResultsHolder \<Rightarrow> decimal) \<Rightarrow> FinalResultsHolder list \<Rightarrow> FinalResultsHolder" where
  "selectBest metric results = foldl (replaceBest metric) zeroResultsHolder results"

definition drawdownMetric :: "FinalResultsHolder \<Rightarrow> decimal" where
  "drawdownMetric r = DrawdownPercent (MaxDrawdown r)"

text \<open>Two entries used to evaluate the selectors: a tuple that did not move and
  one that gained five percent.\<close>

definition flatHolder :: FinalResultsHolder where
  "flatHolder = zeroResultsHolder\<lparr>Exchange := ''binance'', Asset := ''spot''\<rparr>"

definition gainHolder :: FinalResultsHolder where
  "gainHolder = zeroResultsHolder\<lparr>Exchange := ''kraken'', Asset := ''spot'',
     MaxDrawdown := \<lparr>DrawdownPercent = 2\<rparr>, MarketMovement := 5, StrategyMovement := 7\<rparr>"

definition idleHolder :: FinalResultsHolder where
  "idleHolder = zeroResultsHolder\<lparr>Exchange := ''ftx'', Asset := ''futures''\<rparr>"

section \<open>The timeline store\<close>

text \<open>\<^verbatim>\<open>s.ExchangeAssetPairStatistics[ex][a][p]\<close>: indexing a missing key (or a
  \<^verbatim>\<open>nil\<close> map) yields the zero value, here the \<^verbatim>\<open>nil\<close> pointer.\<close>

definition lookupStats :: "exchange_map \<Rightarrow> string \<Rightarrow> string \<Rightarrow> CurrencyPair \<Rightarrow> CurrencyStatistic option" where
  "lookupStats m ex a p =
     (case map_of m ex of
        None \<Rightarrow> None
      | Some am \<Rightarrow> (case map_of am a of None \<Rightarrow> None | Some pm \<Rightarrow> map_of pm p))"

text \<open>\<^verbatim>\<open>setupMap\<close> makes the outer map and the two inner maps for \<open>ex\<close> and \<open>a\<close>
  where they are missing.\<close>

definition setupMap :: "exchange_map option \<Rightarrow> string \<Rightarrow> string \<Rightarrow> exchange_map" where
  "setupMap eaps ex a =
     (let m0 = (case eaps of None \<Rightarrow> [] | Some m \<Rightarrow> m);
          m1 = (case map_of m0 ex of None \<Rightarrow> AList.update ex [] m0 | Some am \<Rightarrow> m0);
          am = (case map_of m1 ex of None \<Rightarrow> [] | Some am \<Rightarrow> am)
      in case map_of am a of
           None \<Rightarrow> AList.update ex (AList.update a [] am) m1
         | Some pm \<Rightarrow> m1)"

text \<open>\<^verbatim>\<open>s.ExchangeAssetPairStatistics[ex][a][p] = lookup\<close>. Both callers assign
  where the two inner maps exist.\<close>

definition storeStats :: "exchange_map \<Rightarrow> string \<Rightarrow> string \<Rightarrow> CurrencyPair \<Rightarrow> CurrencyStatistic \<Rightarrow> exchange_map" where
  "storeStats m ex a p st =
     (let am = (case map_of m ex of None \<Rightarrow> [] | Some am \<Rightarrow> am);
          pm = (case map_of am a of None \<Rightarrow> [] | Some pm \<Rightarrow> pm)
      in AList.update ex (AList.update a (AList.update p st pm) am) m)"

definition zeroHolding :: Holding where
  "zeroHolding = \<lparr>HoldingOffset = 0, TotalValue = 0\<rparr>"

definition zeroSnapshot :: Snapshot where
  "zeroSnapshot = \<lparr>SnapshotOffset = 0, Orders = []\<rparr>"

text \<open>The zero value \<^verbatim>\<open>&currencystatistics.CurrencyStatistic{}\<close>.\<close>

definition zeroCurrencyStatistic :: CurrencyStatistic where
  "zeroCurrencyStatistic =
     \<lparr>Events = [], CurrencyStatistic.MaxDrawdown = \<lparr>DrawdownPercent = 0\<rparr>,
      CurrencyStatistic.MarketMovement = 0, CurrencyStatistic.StrategyMovement = 0,
      BuyOrders = 0, SellOrders = 0, FinalHoldings = zeroHolding,
      InitialHoldings = zeroHolding, FinalOrders = zeroSnapshot,
      ShowMissingDataWarning = False\<rparr>"

text \<open>The scan of \<^verbatim>\<open>SetupEventForTime\<close> over the records of the timeline:
  whether a record has the time, exchange, asset, pair and offset of \<open>ev\<close>.
  \<open>pairEqual\<close> is \<^verbatim>\<open>currency.Pair.Equal\<close>.\<close>

fun alreadyProcessed :: "(CurrencyPair \<Rightarrow> CurrencyPair \<Rightarrow> bool) \<Rightarrow> Event \<Rightarrow> EventStore list \<Rightarrow> bool" where
  "alreadyProcessed pairEqual ev [] = False"
| "alreadyProcessed pairEqual ev (r # rs) =
     (if GetTime (DataEvent r) = GetTime ev
         \<and> GetExchange (DataEvent r) = GetExchange ev
         \<and> GetAssetType (DataEvent r) = GetAssetType ev
         \<and> pairEqual (GetPair (DataEvent r)) (GetPair ev)
         \<and> GetOffset (DataEvent r) = GetOffset ev
      then True
      else alreadyProcessed pairEqual ev rs)"

definition newEventStore :: "Event \<Rightarrow> EventStore" where
  "newEventStore ev =
     \<lparr>DataEvent = ev, SignalEvent = None, OrderEvent = None, FillEvent = None,
      Holdings = zeroHolding, Transactions = zeroSnapshot\<rparr>"

text \<open>\<^verbatim>\<open>SetupEventForTime\<close>. The event argument is \<open>None\<close> for \<^verbatim>\<open>nil\<close>. The maps
  made by \<^verbatim>\<open>setupMap\<close> stay in the store when the call fails afterwards.\<close>

definition SetupEventForTime :: "(CurrencyPair \<Rightarrow> CurrencyPair \<Rightarrow> bool) \<Rightarrow> 'r Statistic \<Rightarrow> Event option \<Rightarrow> 'r Statistic \<times> error option" where
  "SetupEventForTime pairEqual s ev =
     (case ev of
        None \<Rightarrow> (s, Some ErrNilEvent)
      | Some e \<Rightarrow>
          (let ex = GetExchange e; a = GetAssetType e; p = GetPair e;
               m = setupMap (ExchangeAssetPairStatistics s) ex a;
               lookup = (case lookupStats m ex a p of
                           None \<Rightarrow> zeroCurrencyStatistic
                         | Some st \<Rightarrow> st)
           in if alreadyProcessed pairEqual e (Events lookup)
              then (s\<lparr>ExchangeAssetPairStatistics := Some m\<rparr>, Some ErrAlreadyProcessed)
              else (s\<lparr>ExchangeAssetPairStatistics :=
                         Some (storeStats m ex a p
                                 (lookup\<lparr>Events := Events lookup @ [newEventStore e]\<rparr>))\<rparr>,
                    None)))"

text \<open>The backward scan of \<^verbatim>\<open>SetEventForOffset\<close>,
  \<^verbatim>\<open>for i := len(lookup.Events) - 1; i >= 0; i--\<close>: the argument \<open>n\<close> is \<open>i + 1\<close>,
  the result the index of the first record found, \<open>None\<close> when the loop ends
  without one.\<close>

fun scanBackward :: "EventStore list \<Rightarrow> int64 \<Rightarrow> nat \<Rightarrow> nat option" where
  "scanBackward events offset 0 = None"
| "scanBackward events offset (Suc i) =
     (if GetOffset (DataEvent (events ! i)) = offset
      then Some i
      else scanBackward events offset i)"

text \<open>\<^verbatim>\<open>applyEventAtOffset\<close> writes through the pointer \<^verbatim>\<open>lookup\<close>; the model
  returns the timeline it leaves. The type switch is decided before
  \<^verbatim>\<open>lookup.Events[i]\<close> is indexed.\<close>

definition applyEventAtOffset :: "Event \<Rightarrow> CurrencyStatistic \<Rightarrow> nat \<Rightarrow> CurrencyStatistic \<times> failure option" where
  "applyEventAtOffset ev lookup i =
     (case GetKind ev of
        IsOtherEvent \<Rightarrow> (lookup, Some (Error errUnknownEventType))
      | k \<Rightarrow>
          if i < length (Events lookup)
          then (lookup\<lparr>Events := (Events lookup)
                  [i := (case k of
                           IsDataEvent \<Rightarrow> (Events lookup ! i)\<lparr>DataEvent := ev\<rparr>
                         | IsSignalEvent \<Rightarrow> (Events lookup ! i)\<lparr>SignalEvent := Some ev\<rparr>
                         | IsOrderEvent \<Rightarrow> (Events lookup ! i)\<lparr>OrderEvent := Some ev\<rparr>
                         | IsFillEvent \<Rightarrow> (Events lookup ! i)\<lparr>FillEvent := Some ev\<rparr>
                         | IsOtherEvent \<Rightarrow> Events lookup ! i)]\<rparr>,
                None)
          else (lookup, Some (Panic IndexOutOfRange)))"

definition SetEventForOffset :: "'r Statistic \<Rightarrow> Event option \<Rightarrow> 'r Statistic \<times> failure option" where
  "SetEventForOffset s ev =
     (case ev of
        None \<Rightarrow> (s, Some (Error ErrNilEvent))
      | Some e \<Rightarrow>
          (case ExchangeAssetPairStatistics s of
             None \<Rightarrow> (s, Some (Error errExchangeAssetPairStatsUnset))
           | Some m \<Rightarrow>
               (let exch = GetExchange e; a = GetAssetType e; p = GetPair e;
                    offset = GetOffset e
                in case lookupStats m exch a p of
                     None \<Rightarrow> (s, Some (Error errCurrencyStatisticsUnset))
                   | Some lookup \<Rightarrow>
                       (case scanBackward (Events lookup) offset (length (Events lookup)) of
                          Some i \<Rightarrow>
                            (case applyEventAtOffset e lookup i of
                               (lookup', r) \<Rightarrow>
                                 (s\<lparr>ExchangeAssetPairStatistics :=
                                      Some (storeStats m exch a p lookup')\<rparr>, r))
                        | None \<Rightarrow> (s, None)))))"

text \<open>What the matching record becomes, by the kind of the event: the one field
  of that kind is set to the event.\<close>

definition enrich :: "Event \<Rightarrow> EventStore \<Rightarrow> EventStore" where
  "enrich ev r =
     (case GetKind ev of
        IsDataEvent \<Rightarrow> r\<lparr>DataEvent := ev\<rparr>
      | IsSignalEvent \<Rightarrow> r\<lparr>SignalEvent := Some ev\<rparr>
      | IsOrderEvent \<Rightarrow> r\<lparr>OrderEvent := Some ev\<rparr>
      | IsFillEvent \<Rightarrow> r\<lparr>FillEvent := Some ev\<rparr>
      | IsOtherEvent \<Rightarrow> r)"

text \<open>The timeline of a tuple in a store.\<close>

definition timeline :: "'r Statistic \<Rightarrow> string \<Rightarrow> string \<Rightarrow> CurrencyPair \<Rightarrow> CurrencyStatistic option" where
  "timeline s ex a p =
     (case ExchangeAssetPairStatistics s of None \<Rightarrow> None | Some m \<Rightarrow> lookupStats m ex a p)"

section \<open>Aggregation of the results\<close>

text \<open>
  The funding manager is the interface \<^verbatim>\<open>funding.IFundingManager\<close>, given by the
  three methods that \<^verbatim>\<open>CalculateAllResults\<close> calls; \<open>'f\<close> is the type of the
  funding view that \<^verbatim>\<open>GetFundingForEvent\<close> returns.
\<close>

record ('f, 'r) FundingManager =
  GetFundingForEvent :: "Event \<Rightarrow> error + 'f"
  GenerateReport :: "time \<Rightarrow> time \<Rightarrow> 'r"
  IsUsingExchangeLevelFunding :: bool

text \<open>
  Modelled from the spec: \<^verbatim>\<open>CurrencyStatistic.CalculateResults\<close>, the per-tuple
  calculator, is declared in package \<^verbatim>\<open>currencystatistics\<close>. Following the
  specification of the external interfaces it returns an error and populates
  drawdown, movements, buy and sell counts and the missing-data flag of the
  timeline it is bound to. It is a parameter of the aggregation, a function from
  the funding view and the timeline to the populated fields and the error.
\<close>

record Calculated =
  calcMaxDrawdown :: Swing
  calcMarketMovement :: decimal
  calcStrategyMovement :: decimal
  calcBuyOrders :: int64
  calcSellOrders :: int64
  calcShowMissingDataWarning :: bool

type_synonym 'f calculator = "'f \<Rightarrow> CurrencyStatistic \<Rightarrow> Calculated \<times> error option"

definition populate :: "Calculated \<Rightarrow> CurrencyStatistic \<Rightarrow> CurrencyStatistic" where
  "populate c stats =
     stats\<lparr>CurrencyStatistic.MaxDrawdown := calcMaxDrawdown c,
           CurrencyStatistic.MarketMovement := calcMarketMovement c,
           CurrencyStatistic.StrategyMovement := calcStrategyMovement c,
           BuyOrders := calcBuyOrders c,
           SellOrders := calcSellOrders c,
           ShowMissingDataWarning := calcShowMissingDataWarning c\<rparr>"

text \<open>The local variables of \<^verbatim>\<open>CalculateAllResults\<close> that live across the
  iterations.\<close>

record locals =
  currCount :: nat
  finalResults :: "FinalResultsHolder list"
  startDate :: time
  endDate :: time

definition zeroLocals :: locals where
  "zeroLocals = \<lparr>currCount = 0, finalResults = [], startDate = 0, endDate = 0\<rparr>"

text \<open>The event passed to the funding manager: the fill event of the last
  record, else its signal event, else its data event.\<close>

definition activeEvent :: "EventStore \<Rightarrow> Event" where
  "activeEvent last' =
     (case FillEvent last' of
        Some e \<Rightarrow> e
      | None \<Rightarrow> (case SignalEvent last' of Some e \<Rightarrow> e | None \<Rightarrow> DataEvent last'))"

definition resultsHolder :: "string \<Rightarrow> string \<Rightarrow> CurrencyPair \<Rightarrow> CurrencyStatistic \<Rightarrow> FinalResultsHolder" where
  "resultsHolder exchangeName assetItem pair stats =
     \<lparr>Exchange = exchangeName, Asset = assetItem, Pair' = pair,
      MaxDrawdown = CurrencyStatistic.MaxDrawdown stats,
      MarketMovement = CurrencyStatistic.MarketMovement stats,
      StrategyMovement = CurrencyStatistic.StrategyMovement stats\<rparr>"

text \<open>
  The body of the innermost loop, for the tuple \<open>(exchangeName, assetItem, pair)\<close>
  and the timeline \<open>stats\<close> its map entry points to. It returns the timeline as
  the iteration leaves it, the receiver and the locals, and \<open>Some\<close> failure when
  the iteration ends the function: the panic of \<^verbatim>\<open>stats.Events[len(stats.Events)-1]\<close>
  on an empty timeline, or the error of the funding lookup. The error of
  \<^verbatim>\<open>CalculateResults\<close> is logged and dropped. Log lines are not part of the state.
\<close>

definition processTuple ::
  "('f, 'r) FundingManager \<Rightarrow> 'f calculator \<Rightarrow> string \<Rightarrow> string \<Rightarrow> CurrencyPair \<Rightarrow>
   CurrencyStatistic \<Rightarrow> 'r Statistic \<times> locals \<Rightarrow>
   CurrencyStatistic \<times> ('r Statistic \<times> locals) \<times> failure option" where
  "processTuple funds calc exchangeName assetItem pair stats sl =
     (let s = fst sl; l1 = (snd sl)\<lparr>currCount := currCount (snd sl) + 1\<rparr>
      in case Events stats of
           [] \<Rightarrow> (stats, (s, l1), Some (Panic IndexOutOfRange))
         | first # rest \<Rightarrow>
             (let last' = last (Events stats);
                  l2 = l1\<lparr>startDate := GetTime (DataEvent first),
                         endDate := GetTime (DataEvent last')\<rparr>
              in case GetFundingForEvent funds (activeEvent last') of
                   Inl err \<Rightarrow> (stats, (s, l2), Some (Error err))
                 | Inr f \<Rightarrow>
                     (let stats1 = populate (fst (calc f stats)) stats;
                          stats2 = stats1\<lparr>FinalHoldings := Holdings last',
                                          InitialHoldings := Holdings first,
                                          FinalOrders := Transactions last'\<rparr>;
                          s1 = s\<lparr>AllStats := AllStats s @ [stats2],
                                 TotalBuyOrders := TotalBuyOrders s + BuyOrders stats2,
                                 TotalSellOrders := TotalSellOrders s + SellOrders stats2,
                                 WasAnyDataMissing :=
                                   (if ShowMissingDataWarning stats2 then True
                                    else WasAnyDataMissing s)\<rparr>;
                          l3 = l2\<lparr>finalResults := finalResults l2
                                   @ [resultsHolder exchangeName assetItem pair stats2]\<rparr>
                      in (stats2, (s1, l3), None))))"

text \<open>The three nested \<^verbatim>\<open>range\<close> loops. Each returns the map with the timelines
  as the loop leaves them, the receiver and the locals, and the failure that
  ended the function, if any.\<close>

fun pairLoop ::
  "('f, 'r) FundingManager \<Rightarrow> 'f calculator \<Rightarrow> string \<Rightarrow> string \<Rightarrow> pair_map \<Rightarrow>
   'r Statistic \<times> locals \<Rightarrow> pair_map \<times> ('r Statistic \<times> locals) \<times> failure option" where
  "pairLoop funds calc exchangeName assetItem [] sl = ([], sl, None)"
| "pairLoop funds calc exchangeName assetItem ((pair, stats) # rest) sl =
     (case processTuple funds calc exchangeName assetItem pair stats sl of
        (stats', sl', Some x) \<Rightarrow> ((pair, stats') # rest, sl', Some x)
      | (stats', sl', None) \<Rightarrow>
          (case pairLoop funds calc exchangeName assetItem rest sl' of
             (rest', sl'', r) \<Rightarrow> ((pair, stats') # rest', sl'', r)))"

fun assetLoop ::
  "('f, 'r) FundingManager \<Rightarrow> 'f calculator \<Rightarrow> string \<Rightarrow> asset_map \<Rightarrow>
   'r Statistic \<times> locals \<Rightarrow> asset_map \<times> ('r Statistic \<times> locals) \<times> failure option" where
  "assetLoop funds calc exchangeName [] sl = ([], sl, None)"
| "assetLoop funds calc exchangeName ((assetItem, assetMap) # rest) sl =
     (case pairLoop funds calc exchangeName assetItem assetMap sl of
        (assetMap', sl', Some x) \<Rightarrow> ((assetItem, assetMap') # rest, sl', Some x)
      | (assetMap', sl', None) \<Rightarrow>
          (case assetLoop funds calc exchangeName rest sl' of
             (rest', sl'', r) \<Rightarrow> ((assetItem, assetMap') # rest', sl'', r)))"

fun exchangeLoop ::
  "('f, 'r) FundingManager \<Rightarrow> 'f calculator \<Rightarrow> exchange_map \<Rightarrow>
   'r Statistic \<times> locals \<Rightarrow> exchange_map \<times> ('r Statistic \<times> locals) \<times> failure option" where
  "exchangeLoop funds calc [] sl = ([], sl, None)"
| "exchangeLoop funds calc ((exchangeName, exchangeMap) # rest) sl =
     (case assetLoop funds calc exchangeName exchangeMap sl of
        (exchangeMap', sl', Some x) \<Rightarrow> ((exchangeName, exchangeMap') # rest, sl', Some x)
      | (exchangeMap', sl', None) \<Rightarrow>
          (case exchangeLoop funds calc rest sl' of
             (rest', sl'', r) \<Rightarrow> ((exchangeName, exchangeMap') # rest', sl'', r)))"

text \<open>The loops of \<^verbatim>\<open>CalculateAllResults\<close> from the initial locals. A \<^verbatim>\<open>range\<close>
  over the \<^verbatim>\<open>nil\<close> map makes no iteration.\<close>

definition aggregate ::
  "('f, 'r) FundingManager \<Rightarrow> 'f calculator \<Rightarrow> 'r Statistic \<Rightarrow>
   exchange_map \<times> ('r Statistic \<times> locals) \<times> failure option" where
  "aggregate funds calc s =
     exchangeLoop funds calc
       (case ExchangeAssetPairStatistics s of None \<Rightarrow> [] | Some m \<Rightarrow> m) (s, zeroLocals)"

text \<open>\<^verbatim>\<open>CalculateAllResults\<close>. The calls of \<^verbatim>\<open>PrintAllEventsChronologically\<close>,
  \<^verbatim>\<open>PrintResults\<close> and \<^verbatim>\<open>PrintTotalResults\<close> write log lines only and index
  the records inside a \<^verbatim>\<open>range\<close>; they change no field. The timelines are
  reached through pointers, so the store holds them as the loops leave them,
  also when the function returns an error.\<close>

definition CalculateAllResults ::
  "('f, 'r) FundingManager \<Rightarrow> 'f calculator \<Rightarrow> 'r Statistic \<Rightarrow> 'r Statistic \<times> failure option" where
  "CalculateAllResults funds calc s =
     (case aggregate funds calc s of
        (m', (s1, l), r) \<Rightarrow>
          (let s2 = s1\<lparr>ExchangeAssetPairStatistics :=
                        map_option (\<lambda>m. m') (ExchangeAssetPairStatistics s)\<rparr>
           in case r of
                Some x \<Rightarrow> (s2, Some x)
              | None \<Rightarrow>
                  (let s3 = s2\<lparr>Funding := GenerateReport funds (startDate l) (endDate l)\<rparr>;
                       s4 = s3\<lparr>TotalOrders := TotalBuyOrders s3 + TotalSellOrders s3\<rparr>
                   in if currCount l > 1
                      then (s4\<lparr>BiggestDrawdown :=
                                  Some (GetTheBiggestDrawdownAcrossCurrencies (finalResults l)),
                                BestMarketMovement :=
                                  Some (GetBestMarketPerformer (finalResults l)),
                                BestStrategyResults :=
                                  Some (GetBestStrategyPerformer (finalResults l))\<rparr>, None)
                      else (s4, None))))"

text \<open>The tuples of a map in the order the loops visit them, each with its
  timeline before the visit, and the tuples of a store.\<close>

type_synonym visit = "string \<times> string \<times> CurrencyPair \<times> CurrencyStatistic"

fun pairVisits :: "string \<Rightarrow> string \<Rightarrow> pair_map \<Rightarrow> visit list" where
  "pairVisits ex a [] = []"
| "pairVisits ex a ((p, st) # rest) = (ex, a, p, st) # pairVisits ex a rest"

fun assetVisits :: "string \<Rightarrow> asset_map \<Rightarrow> visit list" where
  "assetVisits ex [] = []"
| "assetVisits ex ((a, pm) # rest) = pairVisits ex a pm @ assetVisits ex rest"

fun tuples :: "exchange_map \<Rightarrow> visit list" where
  "tuples [] = []"
| "tuples ((ex, am) # rest) = assetVisits ex am @ tuples rest"

definition storeTuples :: "'r Statistic \<Rightarrow> visit list" where
  "storeTuples s = tuples (case ExchangeAssetPairStatistics s of None \<Rightarrow> [] | Some m \<Rightarrow> m)"

definition statsOf :: "visit \<Rightarrow> CurrencyStatistic" where
  "statsOf t = snd (snd (snd t))"

text \<open>The iterations of the three loops as one loop over the visited tuples,
  with the receiver and the locals it leaves and the failure that ended it.\<close>

fun visitLoop ::
  "('f, 'r) FundingManager \<Rightarrow> 'f calculator \<Rightarrow> visit list \<Rightarrow>
   'r Statistic \<times> locals \<Rightarrow> ('r Statistic \<times> locals) \<times> failure option" where
  "visitLoop funds calc [] sl = (sl, None)"
| "visitLoop funds calc ((ex, a, p, st) # ts) sl =
     (case processTuple funds calc ex a p st sl of
        (st', sl', Some x) \<Rightarrow> (sl', Some x)
      | (st', sl', None) \<Rightarrow> visitLoop funds calc ts sl')"

text \<open>A timeline is fundable when it has a record and the funding lookup for the
  active event of its last record succeeds.\<close>

definition fundable :: "('f, 'r) FundingManager \<Rightarrow> CurrencyStatistic \<Rightarrow> bool" where
  "fundable funds stats =
     (case Events stats of
        [] \<Rightarrow> False
      | first # rest \<Rightarrow>
          (case GetFundingForEvent funds (activeEvent (last (Events stats))) of
             Inl err \<Rightarrow> False
           | Inr f \<Rightarrow> True))"

text \<open>The timeline of a fundable tuple after its iteration: the fields computed by
  the calculator, and the holdings and compliance of its first and last record.\<close>

definition finalStats :: "('f, 'r) FundingManager \<Rightarrow> 'f calculator \<Rightarrow> CurrencyStatistic \<Rightarrow> CurrencyStatistic" where
  "finalStats funds calc stats =
     (populate
        (fst (calc (projr (GetFundingForEvent funds (activeEvent (last (Events stats))))) stats))
        stats)
       \<lparr>FinalHoldings := Holdings (last (Events stats)),
        InitialHoldings := Holdings (hd (Events stats)),
        FinalOrders := Transactions (last (Events stats))\<rparr>"

definition finalHolder :: "('f, 'r) FundingManager \<Rightarrow> 'f calculator \<Rightarrow> visit \<Rightarrow> FinalResultsHolder" where
  "finalHolder funds calc t =
     (case t of (ex, a, p, st) \<Rightarrow> resultsHolder ex a p (finalStats funds calc st))"

text \<open>The map of a store whose tuples have all had their iteration.\<close>

definition finalMap :: "('f, 'r) FundingManager \<Rightarrow> 'f calculator \<Rightarrow> exchange_map \<Rightarrow> exchange_map" where
  "finalMap funds calc m =
     map (apsnd (map (apsnd (map (apsnd (finalStats funds calc)))))) m"

text \<open>A calculator that computes what \<open>calc\<close> computes and returns no error.\<close>

definition withoutError :: "'f calculator \<Rightarrow> 'f calculator" where
  "withoutError calc = (\<lambda>f stats. (fst (calc f stats), None))"

text \<open>The times of the records of a timeline, and of all timelines of a store.\<close>

definition recordTimes :: "CurrencyStatistic \<Rightarrow> time list" where
  "recordTimes stats = map (\<lambda>r. GetTime (DataEvent r)) (Events stats)"

definition allRecordTimes :: "'r Statistic \<Rightarrow> time list" where
  "allRecordTimes s = concat (map (\<lambda>t. recordTimes (statsOf t)) (storeTuples s))"

section \<open>The sizing engine\<close>

text \<open>
  The package \<^verbatim>\<open>size\<close> is present through its tests only
  (\<^verbatim>\<open>size_test.go\<close>), which fix the signatures and the results of a few calls.
  Its functions are modelled from the specification, section 4.3, in exact
  arithmetic as the specification requires.
\<close>

text \<open>\<^verbatim>\<open>config.MinMax\<close>, the constraints of one direction, and \<^verbatim>\<open>Size\<close>.\<close>

record MinMax =
  MinimumSize :: decimal
  MaximumSize :: decimal
  MaximumTotal :: decimal

record Size =
  BuySide :: MinMax
  SellSide :: MinMax

text \<open>Step 2: the fee-deflated affordability ceiling from the available funds.\<close>

definition fundsCeiling :: "decimal \<Rightarrow> decimal \<Rightarrow> decimal \<Rightarrow> decimal" where
  "fundsCeiling availableFunds feeRate price = availableFunds * (1 - feeRate) / price"

text \<open>Step 3: the fee-deflated ceiling from the maximum total exposure.\<close>

definition totalCeiling :: "MinMax \<Rightarrow> decimal \<Rightarrow> decimal \<Rightarrow> decimal" where
  "totalCeiling constraints feeRate price = MaximumTotal constraints * (1 - feeRate) / price"

text \<open>
  Modelled from the spec: \<^verbatim>\<open>calculateBuySize\<close> and \<^verbatim>\<open>calculateSellSize\<close> are not
  among the sources; they share the algorithm of section 4.3, steps 1 to 7.
  \<^item> Step 1 fails with \<open>errNoFunds\<close> for funds that are zero or negative.
  \<^item> Steps 2 and 3 divide by the price. The specification gives the quotients no
    value for a zero price, and the division of \<^verbatim>\<open>decimal.Decimal\<close> panics there:
    the model ends with that panic.
  \<^item> Step 4 takes the minimum of the directional limit, the funds ceiling and,
    for a nonzero maximum total, the total ceiling.
  \<^item> Step 5 caps the candidate at a nonzero maximum size. The lower end of the
    range is enforced by step 6, which fails with \<open>errLessThanMinimum\<close> for a
    quantity that is "still strictly less than a nonzero minimum size", as
    \<^verbatim>\<open>TestSizingUnderMinSize\<close> and \<^verbatim>\<open>TestCalculateSellSize\<close> expect for a candidate
    below the minimum: the candidate is not raised to the minimum.
\<close>

definition calculateSize :: "decimal \<Rightarrow> decimal \<Rightarrow> decimal \<Rightarrow> decimal \<Rightarrow> MinMax \<Rightarrow> failure + decimal" where
  "calculateSize price availableFunds feeRate directionalLimit constraints =
     (if availableFunds \<le> 0 then Inl (Error errNoFunds)
      else if price = 0 then Inl (Panic DivisionByZero)
      else
        (let affordable = fundsCeiling availableFunds feeRate price;
             candidate =
               (if MaximumTotal constraints \<noteq> 0
                then min (min directionalLimit affordable) (totalCeiling constraints feeRate price)
                else min directionalLimit affordable);
             clamped =
               (if MaximumSize constraints \<noteq> 0
                then min candidate (MaximumSize constraints)
                else candidate)
         in if clamped < MinimumSize constraints \<and> MinimumSize constraints \<noteq> 0
            then Inl (Error errLessThanMinimum)
            else Inr clamped))"

definition calculateBuySize :: "decimal \<Rightarrow> decimal \<Rightarrow> decimal \<Rightarrow> decimal \<Rightarrow> MinMax \<Rightarrow> failure + decimal" where
  "calculateBuySize price availableFunds feeRate buyLimit minMaxSettings =
     calculateSize price availableFunds feeRate buyLimit minMaxSettings"

definition calculateSellSize :: "decimal \<Rightarrow> decimal \<Rightarrow> decimal \<Rightarrow> decimal \<Rightarrow> MinMax \<Rightarrow> failure + decimal" where
  "calculateSellSize price availableFunds feeRate sellLimit minMaxSettings =
     calculateSize price availableFunds feeRate sellLimit minMaxSettings"

text \<open>\<^verbatim>\<open>gctorder.Side\<close>, of which the sizing tells buy and sell from every other
  value (the unset direction among them); \<^verbatim>\<open>order.Order\<close> and
  \<^verbatim>\<open>exchange.Settings\<close>, with the fields the sizing reads and writes.\<close>

datatype Side = Buy | Sell | OtherSide string

record Order =
  Direction :: Side
  Price :: decimal
  Amount :: decimal

record Settings =
  ExchangeFee :: decimal

text \<open>The directional limit that \<^verbatim>\<open>SizeOrder\<close> derives: the quantity that the
  available funds buy at the order's price.\<close>

definition directionalLimit :: "decimal \<Rightarrow> decimal \<Rightarrow> decimal" where
  "directionalLimit availableFunds price = availableFunds / price"

text \<open>
  Modelled from the spec: \<^verbatim>\<open>SizeOrder\<close> is not among the sources. The order is
  \<open>None\<close> for \<^verbatim>\<open>nil\<close>. The specification states the funds check for an order
  with a nonzero price; \<^verbatim>\<open>TestSizeOrder\<close> expects \<open>errNoFunds\<close> for zero funds
  and \<open>errCannotAllocate\<close> for an unset direction from an order whose price is
  zero as well, so the check does not look at the price, and the price divides
  only once a direction is chosen. The fee rate is the fee of the exchange
  settings, and a sized order is the order with its amount set.
\<close>

definition SizeOrder :: "Size \<Rightarrow> Order option \<Rightarrow> decimal \<Rightarrow> Settings \<Rightarrow> failure + Order" where
  "SizeOrder s order availableFunds cs =
     (case order of
        None \<Rightarrow> Inl (Error ErrNilArguments)
      | Some retOrder \<Rightarrow>
          if availableFunds = 0 then Inl (Error errNoFunds)
          else
            (case Direction retOrder of
               Buy \<Rightarrow>
                 (case calculateBuySize (Price retOrder) availableFunds (ExchangeFee cs)
                         (directionalLimit availableFunds (Price retOrder)) (BuySide s) of
                    Inl x \<Rightarrow> Inl x
                  | Inr amount \<Rightarrow> Inr (retOrder\<lparr>Amount := amount\<rparr>))
             | Sell \<Rightarrow>
                 (case calculateSellSize (Price retOrder) availableFunds (ExchangeFee cs)
                         (directionalLimit availableFunds (Price retOrder)) (SellSide s) of
                    Inl x \<Rightarrow> Inl x
                  | Inr amount \<Rightarrow> Inr (retOrder\<lparr>Amount := amount\<rparr>))
             | OtherSide d \<Rightarrow> Inl (Error errCannotAllocate)))"

section \<open>Inputs for evaluation\<close>

text \<open>A store for one backtest run on the pair BTC-USD of one exchange: the zero
  value of \<^verbatim>\<open>Statistic\<close>, with a funding report that is the pair of the dates it was
  asked for, and two candles with the offset 7, recorded at the times 100 and
  200. \<^verbatim>\<open>Pair.Equal\<close> is taken to be equality.\<close>

definition btcusd :: CurrencyPair where
  "btcusd = \<lparr>Delimiter = ''-'', Base = ''BTC'', Quote = ''USD''\<rparr>"

definition ethusd :: CurrencyPair where
  "ethusd = \<lparr>Delimiter = ''-'', Base = ''ETH'', Quote = ''USD''\<rparr>"

definition candle :: "CurrencyPair \<Rightarrow> int64 \<Rightarrow> time \<Rightarrow> Event" where
  "candle p n t =
     \<lparr>GetExchange = ''binance'', GetAssetType = ''spot'', GetPair = p,
      GetTime = t, GetOffset = n, GetKind = IsDataEvent\<rparr>"

definition zeroStatistic :: "(time \<times> time) Statistic" where
  "zeroStatistic =
     \<lparr>StrategyName = [], ExchangeAssetPairStatistics = None,
      TotalBuyOrders = 0, TotalSellOrders = 0, TotalOrders = 0,
      BiggestDrawdown = None, BestStrategyResults = None, BestMarketMovement = None,
      AllStats = [], WasAnyDataMissing = False, Funding = (0, 0)\<rparr>"

definition recordedTwice :: "(time \<times> time) Statistic" where
  "recordedTwice =
     fst (SetupEventForTime (=)
            (fst (SetupEventForTime (=) zeroStatistic (Some (candle btcusd 7 100))))
            (Some (candle btcusd 7 200)))"

definition twoRecords :: CurrencyStatistic where
  "twoRecords =
     zeroCurrencyStatistic
       \<lparr>Events := [newEventStore (candle btcusd 7 100), newEventStore (candle btcusd 7 200)]\<rparr>"

text \<open>Events to enrich the records with: a signal for the offset 7, a signal for
  an offset that has no record, and an event of no known kind for the offset 7.\<close>

definition signalAt :: "int64 \<Rightarrow> Event" where
  "signalAt n = (candle btcusd n 200)\<lparr>GetKind := IsSignalEvent\<rparr>"

definition strangeEvent :: Event where
  "strangeEvent = (candle btcusd 7 200)\<lparr>GetKind := IsOtherEvent\<rparr>"

text \<open>Two timelines on one exchange and asset: BTC-USD with records at the times
  1 and 3, ETH-USD with records at the times 2 and 5, in a store whose map visits
  BTC-USD first and in a store whose map visits ETH-USD first; and a store whose
  only timeline has no record.\<close>

definition btcTimeline :: CurrencyStatistic where
  "btcTimeline =
     zeroCurrencyStatistic
       \<lparr>Events := [newEventStore (candle btcusd 1 1), newEventStore (candle btcusd 2 3)]\<rparr>"

definition ethTimeline :: CurrencyStatistic where
  "ethTimeline =
     zeroCurrencyStatistic
       \<lparr>Events := [newEventStore (candle ethusd 1 2), newEventStore (candle ethusd 2 5)]\<rparr>"

definition btcFirstStore :: "(time \<times> time) Statistic" where
  "btcFirstStore =
     zeroStatistic\<lparr>ExchangeAssetPairStatistics :=
       Some [(''binance'', [(''spot'', [(btcusd, btcTimeline), (ethusd, ethTimeline)])])]\<rparr>"

definition ethFirstStore :: "(time \<times> time) Statistic" where
  "ethFirstStore =
     zeroStatistic\<lparr>ExchangeAssetPairStatistics :=
       Some [(''binance'', [(''spot'', [(ethusd, ethTimeline), (btcusd, btcTimeline)])])]\<rparr>"

definition emptyTimelineStore :: "(time \<times> time) Statistic" where
  "emptyTimelineStore =
     zeroStatistic\<lparr>ExchangeAssetPairStatistics :=
       Some [(''binance'', [(''spot'', [(btcusd, zeroCurrencyStatistic)])])]\<rparr>"

text \<open>A funding manager that funds every event and one that has no funding for
  ETH-USD; the report of both is the pair of the dates asked for. A calculator
  that counts two buy orders and one sell order and returns an error.\<close>

definition openFunds :: "(unit, time \<times> time) FundingManager" where
  "openFunds =
     \<lparr>GetFundingForEvent = (\<lambda>e. Inr ()),
      GenerateReport = (\<lambda>start finish. (start, finish)),
      IsUsingExchangeLevelFunding = False\<rparr>"

definition btcOnlyFunds :: "(unit, time \<times> time) FundingManager" where
  "btcOnlyFunds =
     \<lparr>GetFundingForEvent =
        (\<lambda>e. if GetPair e = ethusd then Inl (errExternal ''no funding'') else Inr ()),
      GenerateReport = (\<lambda>start finish. (start, finish)),
      IsUsingExchangeLevelFunding = False\<rparr>"

definition failingCalculator :: "unit calculator" where
  "failingCalculator =
     (\<lambda>f stats.
        (\<lparr>calcMaxDrawdown = \<lparr>DrawdownPercent = 0\<rparr>, calcMarketMovement = 0,
          calcStrategyMovement = 0, calcBuyOrders = 2, calcSellOrders = 1,
          calcShowMissingDataWarning = False\<rparr>,
         Some (errExternal ''calculation failed'')))"



definition unsetOrder :: Order where
  "unsetOrder = \<lparr>Direction = OtherSide [], Price = 1, Amount = 0\<rparr>"

definition zeroSize :: Size where
  "zeroSize =
     \<lparr>BuySide = \<lparr>MinimumSize = 0, MaximumSize = 0, MaximumTotal = 0\<rparr>,
      SellSide = \<lparr>MinimumSize = 0, MaximumSize = 0, MaximumTotal = 0\<rparr>\<rparr>"

section \<open>Properties of the selectors\<close>

lemma bestStrategyLoop_foldl:
  "bestStrategyLoop b rs = foldl (replaceBest StrategyMovement) b rs"
  by (induction rs arbitrary: b) (simp_all add: replaceBest_def)

lemma biggestDrawdownLoop_foldl:
  "biggestDrawdownLoop b rs = foldl (replaceBest drawdownMetric) b rs"
  by (induction rs arbitrary: b) (simp_all add: replaceBest_def drawdownMetric_def)

lemma foldl_replaceBest_all_zero:
  "metric b = 0 \<Longrightarrow> \<forall>r \<in> set rs. metric r = 0 \<Longrightarrow> rs \<noteq> [] \<Longrightarrow>
   foldl (replaceBest metric) b rs = last rs"
proof (induction rs arbitrary: b)
  case Nil
  then show ?case by simp
next
  case (Cons r rs)
  have step: "replaceBest metric b r = r"
    using Cons.prems(1) by (simp add: replaceBest_def)
  show ?case
  proof (cases "rs = []")
    case True
    then show ?thesis using step by simp
  next
    case False
    have "foldl (replaceBest metric) r rs = last rs"
      using Cons.IH [of r] Cons.prems(2) False by simp
    then show ?thesis using step False by simp
  qed
qed

lemma selectBest_all_zero:
  "\<forall>r \<in> set rs. metric r = 0 \<Longrightarrow> rs \<noteq> [] \<Longrightarrow> metric zeroResultsHolder = 0 \<Longrightarrow>
   selectBest metric rs = last rs"
  unfolding selectBest_def by (rule foldl_replaceBest_all_zero)

lemma selectBest_zero_then_positive:
  "metric z = 0 \<Longrightarrow> 0 < metric p \<Longrightarrow> metric zeroResultsHolder = 0 \<Longrightarrow>
   selectBest metric [z, p] = p"
  by (simp add: selectBest_def replaceBest_def)

text \<open>
  C3. \<^verbatim>\<open>GetBestMarketPerformer\<close> does not follow the replace-while-greater-or-zero
  rule over the whole list: the running best starts with a zero market movement,
  so the first entry always replaces it, and the \<^verbatim>\<open>break\<close> ends the loop there.
  For a zero-movement entry followed by a positive-movement entry it returns the
  zero-movement entry, and for two zero-movement entries it returns the first
  one, where the rule selects the positive entry and the last entry.
\<close>

theorem GetBestMarketPerformer_stops_at_first:
  "GetBestMarketPerformer [flatHolder, gainHolder] = flatHolder
   \<and> selectBest MarketMovement [flatHolder, gainHolder] = gainHolder
   \<and> GetBestMarketPerformer [flatHolder, gainHolder] \<noteq> gainHolder
   \<and> GetBestMarketPerformer [flatHolder, idleHolder] = flatHolder
   \<and> selectBest MarketMovement [flatHolder, idleHolder] = idleHolder
   \<and> GetBestMarketPerformer [flatHolder, idleHolder] \<noteq> idleHolder"
  by (simp add: GetBestMarketPerformer_def selectBest_def replaceBest_def
      flatHolder_def gainHolder_def idleHolder_def zeroResultsHolder_def)

text \<open>
  C4. For every non-empty list of results, \<^verbatim>\<open>GetBestStrategyPerformer\<close> and
  \<^verbatim>\<open>GetTheBiggestDrawdownAcrossCurrencies\<close> return the entry selected by the
  rule (running best from the zero value, replaced when the candidate's metric is
  strictly greater or the running best's metric is zero), over the strategy
  movement and over the drawdown percentage. A zero-metric entry followed by a
  positive-metric entry yields the positive entry, and a list of zero-metric
  entries yields its last entry.
\<close>

theorem best_strategy_and_drawdown_selection:
  "results \<noteq> [] \<longrightarrow>
     GetBestStrategyPerformer results = selectBest StrategyMovement results
     \<and> GetTheBiggestDrawdownAcrossCurrencies results = selectBest drawdownMetric results
     \<and> GetBestStrategyPerformer results \<in> set results
     \<and> GetTheBiggestDrawdownAcrossCurrencies results \<in> set results
     \<and> (\<forall>z p. StrategyMovement z = 0 \<and> 0 < StrategyMovement p \<longrightarrow>
            GetBestStrategyPerformer [z, p] = p)
     \<and> (\<forall>z p. drawdownMetric z = 0 \<and> 0 < drawdownMetric p \<longrightarrow>
            GetTheBiggestDrawdownAcrossCurrencies [z, p] = p)
     \<and> ((\<forall>r \<in> set results. StrategyMovement r = 0) \<longrightarrow>
            GetBestStrategyPerformer results = last results)
     \<and> ((\<forall>r \<in> set results. drawdownMetric r = 0) \<longrightarrow>
            GetTheBiggestDrawdownAcrossCurrencies results = last results)"
proof
  assume ne: "results \<noteq> []"
  have s: "GetBestStrategyPerformer rs = selectBest StrategyMovement rs" for rs
    by (simp add: GetBestStrategyPerformer_def selectBest_def bestStrategyLoop_foldl)
  have d: "GetTheBiggestDrawdownAcrossCurrencies rs = selectBest drawdownMetric rs" for rs
    by (simp add: GetTheBiggestDrawdownAcrossCurrencies_def selectBest_def
        biggestDrawdownLoop_foldl)
  have zs: "StrategyMovement zeroResultsHolder = 0"
    by (simp add: zeroResultsHolder_def)
  have zd: "drawdownMetric zeroResultsHolder = 0"
    by (simp add: zeroResultsHolder_def drawdownMetric_def)
  have mem: "selectBest metric results \<in> set results"
    if "metric zeroResultsHolder = 0" for metric
  proof -
    have "foldl (replaceBest metric) b rs \<in> insert b (set rs)" for b rs
      by (induction rs arbitrary: b) (auto simp: replaceBest_def)
    moreover have "foldl (replaceBest metric) zeroResultsHolder (r # rs)
        = foldl (replaceBest metric) r rs" for r rs
      using that by (simp add: replaceBest_def)
    ultimately show ?thesis
      using ne unfolding selectBest_def by (cases results) auto
  qed
  show "GetBestStrategyPerformer results = selectBest StrategyMovement results
     \<and> GetTheBiggestDrawdownAcrossCurrencies results = selectBest drawdownMetric results
     \<and> GetBestStrategyPerformer results \<in> set results
     \<and> GetTheBiggestDrawdownAcrossCurrencies results \<in> set results
     \<and> (\<forall>z p. StrategyMovement z = 0 \<and> 0 < StrategyMovement p \<longrightarrow>
            GetBestStrategyPerformer [z, p] = p)
     \<and> (\<forall>z p. drawdownMetric z = 0 \<and> 0 < drawdownMetric p \<longrightarrow>
            GetTheBiggestDrawdownAcrossCurrencies [z, p] = p)
     \<and> ((\<forall>r \<in> set results. StrategyMovement r = 0) \<longrightarrow>
            GetBestStrategyPerformer results = last results)
     \<and> ((\<forall>r \<in> set results. drawdownMetric r = 0) \<longrightarrow>
            GetTheBiggestDrawdownAcrossCurrencies results = last results)"
    using ne s d zs zd mem [of StrategyMovement, OF zs] mem [of drawdownMetric, OF zd]
      selectBest_zero_then_positive [of StrategyMovement, OF _ _ zs]
      selectBest_zero_then_positive [of drawdownMetric, OF _ _ zd]
      selectBest_all_zero [of results StrategyMovement, OF _ ne zs]
      selectBest_all_zero [of results drawdownMetric, OF _ ne zd]
    by simp
qed

theorem best_strategy_and_drawdown_selection_witness:
  "[flatHolder, gainHolder] \<noteq> []
   \<and> GetBestStrategyPerformer [flatHolder, gainHolder] = gainHolder
   \<and> GetTheBiggestDrawdownAcrossCurrencies [flatHolder, gainHolder] = gainHolder
   \<and> GetBestStrategyPerformer [flatHolder, idleHolder] = idleHolder
   \<and> GetTheBiggestDrawdownAcrossCurrencies [flatHolder, idleHolder] = idleHolder"
proof -
  have g: "StrategyMovement flatHolder = 0 \<and> 0 < StrategyMovement gainHolder"
    and g': "drawdownMetric flatHolder = 0 \<and> 0 < drawdownMetric gainHolder"
    by (simp_all add: flatHolder_def gainHolder_def zeroResultsHolder_def drawdownMetric_def)
  have z: "\<forall>r \<in> set [flatHolder, idleHolder]. StrategyMovement r = 0"
    and z': "\<forall>r \<in> set [flatHolder, idleHolder]. drawdownMetric r = 0"
    by (simp_all add: flatHolder_def idleHolder_def zeroResultsHolder_def drawdownMetric_def)
  have ne: "[flatHolder, gainHolder] \<noteq> []" and ne': "[flatHolder, idleHolder] \<noteq> []"
    by simp_all
  note pos = best_strategy_and_drawdown_selection [of "[flatHolder, gainHolder]"]
  note zero = best_strategy_and_drawdown_selection [of "[flatHolder, idleHolder]"]
  have "GetBestStrategyPerformer [flatHolder, gainHolder] = gainHolder"
    using pos ne g by blast
  moreover have "GetTheBiggestDrawdownAcrossCurrencies [flatHolder, gainHolder] = gainHolder"
    using pos ne g' by blast
  moreover have "GetBestStrategyPerformer [flatHolder, idleHolder] = last [flatHolder, idleHolder]"
    using zero ne' z by blast
  moreover have "GetTheBiggestDrawdownAcrossCurrencies [flatHolder, idleHolder]
      = last [flatHolder, idleHolder]"
    using zero ne' z' by blast
  ultimately show ?thesis by simp
qed

section \<open>Properties of the timeline store\<close>


lemma storeStats_same:
  "lookupStats m ex a p = Some st \<Longrightarrow> storeStats m ex a p st = m"
  by (auto simp: lookupStats_def storeStats_def AList.update_triv split: option.splits)

lemma lookupStats_storeStats:
  "lookupStats (storeStats m ex a p st) ex' a' p' =
     (if ex' = ex \<and> a' = a \<and> p' = p then Some st else lookupStats m ex' a' p')"
  by (auto simp: lookupStats_def storeStats_def AList.update_conv' split: option.splits)

lemma setupMap_present:
  "lookupStats m ex a p = Some st \<Longrightarrow> setupMap (Some m) ex a = m"
  by (auto simp: lookupStats_def setupMap_def split: option.splits)

lemma alreadyProcessed_iff:
  "alreadyProcessed pairEqual ev rs \<longleftrightarrow>
     (\<exists>r \<in> set rs. GetTime (DataEvent r) = GetTime ev
         \<and> GetExchange (DataEvent r) = GetExchange ev
         \<and> GetAssetType (DataEvent r) = GetAssetType ev
         \<and> pairEqual (GetPair (DataEvent r)) (GetPair ev)
         \<and> GetOffset (DataEvent r) = GetOffset ev)"
  by (induction rs) auto

lemma scanBackward_None:
  "scanBackward events offset n = None \<longleftrightarrow>
     (\<forall>i < n. GetOffset (DataEvent (events ! i)) \<noteq> offset)"
  by (induction n) (auto simp: less_Suc_eq)

lemma scanBackward_Some:
  "scanBackward events offset n = Some i \<longleftrightarrow>
     i < n \<and> GetOffset (DataEvent (events ! i)) = offset
     \<and> (\<forall>j. i < j \<and> j < n \<longrightarrow> GetOffset (DataEvent (events ! j)) \<noteq> offset)"
proof (induction n)
  case 0
  then show ?case by simp
next
  case (Suc n)
  show ?case
  proof (cases "GetOffset (DataEvent (events ! n)) = offset")
    case True
    then show ?thesis
      by (auto simp: less_Suc_eq)
  next
    case False
    then show ?thesis using Suc
      by (auto simp: less_Suc_eq)
  qed
qed

lemma applyEventAtOffset_enrich:
  "i < length (Events st) \<Longrightarrow> GetKind ev \<noteq> IsOtherEvent \<Longrightarrow>
   applyEventAtOffset ev st i = (st\<lparr>Events := (Events st)[i := enrich ev (Events st ! i)]\<rparr>, None)"
  by (cases "GetKind ev") (simp_all add: applyEventAtOffset_def enrich_def)

lemma applyEventAtOffset_other:
  "GetKind ev = IsOtherEvent \<Longrightarrow>
   applyEventAtOffset ev st i = (st, Some (Error errUnknownEventType))"
  by (simp add: applyEventAtOffset_def)

text \<open>
  C2. In every store in which the timeline of the event's tuple holds a record
  with the exchange, asset, pair, time and offset of the event,
  \<^verbatim>\<open>SetupEventForTime\<close> returns \<open>ErrAlreadyProcessed\<close> and leaves the store as it
  was, so the timeline has the length and the records it had before the call.
\<close>

theorem SetupEventForTime_duplicate:
  assumes "timeline s (GetExchange ev) (GetAssetType ev) (GetPair ev) = Some st"
    and "r \<in> set (Events st)"
    and "GetExchange (DataEvent r) = GetExchange ev"
    and "GetAssetType (DataEvent r) = GetAssetType ev"
    and "pairEqual (GetPair (DataEvent r)) (GetPair ev)"
    and "GetTime (DataEvent r) = GetTime ev"
    and "GetOffset (DataEvent r) = GetOffset ev"
  shows "SetupEventForTime pairEqual s (Some ev) = (s, Some ErrAlreadyProcessed)
     \<and> timeline (fst (SetupEventForTime pairEqual s (Some ev)))
          (GetExchange ev) (GetAssetType ev) (GetPair ev) = Some st"
proof -
  obtain m where m: "ExchangeAssetPairStatistics s = Some m"
    and l: "lookupStats m (GetExchange ev) (GetAssetType ev) (GetPair ev) = Some st"
    using assms(1) by (auto simp: timeline_def split: option.splits)
  have sm: "setupMap (Some m) (GetExchange ev) (GetAssetType ev) = m"
    using l by (rule setupMap_present)
  have ap: "alreadyProcessed pairEqual ev (Events st)"
    unfolding alreadyProcessed_iff using assms(2-7) by blast
  have "s\<lparr>ExchangeAssetPairStatistics := Some m\<rparr> = s"
    using m by simp
  then have "SetupEventForTime pairEqual s (Some ev) = (s, Some ErrAlreadyProcessed)"
    using m l sm ap by (simp add: SetupEventForTime_def)
  then show ?thesis using assms(1) by simp
qed

text \<open>
  C6. For an event whose tuple has a timeline in an initialised store,
  \<^verbatim>\<open>SetEventForOffset\<close> acts on the latest record whose offset is the event's: it
  sets the one field of the event's kind (data, signal, order or fill) in that
  record and changes nothing else in the store, or returns the unknown event
  type error for an event of another kind. When no record has the offset it
  returns \<^verbatim>\<open>nil\<close> and the store is unchanged.
\<close>

theorem SetEventForOffset_latest_match:
  assumes "timeline s (GetExchange ev) (GetAssetType ev) (GetPair ev) = Some st"
  shows "((\<forall>r \<in> set (Events st). GetOffset (DataEvent r) \<noteq> GetOffset ev) \<longrightarrow>
            SetEventForOffset s (Some ev) = (s, None))
     \<and> (\<forall>i. i < length (Events st)
            \<and> GetOffset (DataEvent (Events st ! i)) = GetOffset ev
            \<and> (\<forall>j. i < j \<and> j < length (Events st) \<longrightarrow>
                   GetOffset (DataEvent (Events st ! j)) \<noteq> GetOffset ev) \<longrightarrow>
          (GetKind ev = IsOtherEvent \<longrightarrow>
             SetEventForOffset s (Some ev) = (s, Some (Error errUnknownEventType)))
          \<and> (GetKind ev \<noteq> IsOtherEvent \<longrightarrow>
               snd (SetEventForOffset s (Some ev)) = None
               \<and> (\<forall>ex a p. timeline (fst (SetEventForOffset s (Some ev))) ex a p =
                     (if ex = GetExchange ev \<and> a = GetAssetType ev \<and> p = GetPair ev
                      then Some (st\<lparr>Events := (Events st)[i := enrich ev (Events st ! i)]\<rparr>)
                      else timeline s ex a p))))"
proof -
  obtain m where m: "ExchangeAssetPairStatistics s = Some m"
    and l: "lookupStats m (GetExchange ev) (GetAssetType ev) (GetPair ev) = Some st"
    using assms(1) by (auto simp: timeline_def split: option.splits)
  have none: "SetEventForOffset s (Some ev) = (s, None)"
    if "\<forall>r \<in> set (Events st). GetOffset (DataEvent r) \<noteq> GetOffset ev"
  proof -
    have "scanBackward (Events st) (GetOffset ev) (length (Events st)) = None"
      unfolding scanBackward_None using that by simp
    then show ?thesis using m l by (simp add: SetEventForOffset_def)
  qed
  have some: "(GetKind ev = IsOtherEvent \<longrightarrow>
             SetEventForOffset s (Some ev) = (s, Some (Error errUnknownEventType)))
          \<and> (GetKind ev \<noteq> IsOtherEvent \<longrightarrow>
               snd (SetEventForOffset s (Some ev)) = None
               \<and> (\<forall>ex a p. timeline (fst (SetEventForOffset s (Some ev))) ex a p =
                     (if ex = GetExchange ev \<and> a = GetAssetType ev \<and> p = GetPair ev
                      then Some (st\<lparr>Events := (Events st)[i := enrich ev (Events st ! i)]\<rparr>)
                      else timeline s ex a p)))"
    if i: "i < length (Events st)" "GetOffset (DataEvent (Events st ! i)) = GetOffset ev"
      "\<forall>j. i < j \<and> j < length (Events st) \<longrightarrow>
                   GetOffset (DataEvent (Events st ! j)) \<noteq> GetOffset ev" for i
  proof -
    have sc: "scanBackward (Events st) (GetOffset ev) (length (Events st)) = Some i"
      unfolding scanBackward_Some using i by simp
    show ?thesis
    proof (cases "GetKind ev = IsOtherEvent")
      case True
      have "s\<lparr>ExchangeAssetPairStatistics := Some m\<rparr> = s" using m by simp
      then show ?thesis
        using True m l sc
        by (simp add: SetEventForOffset_def applyEventAtOffset_other storeStats_same)
    next
      case False
      then show ?thesis
        using m l sc i(1)
        by (simp add: SetEventForOffset_def applyEventAtOffset_enrich timeline_def
            lookupStats_storeStats)
    qed
  qed
  show ?thesis using none some by blast
qed

lemma recordedTwice_store:
  "ExchangeAssetPairStatistics recordedTwice
     = Some [(''binance'', [(''spot'', [(btcusd, twoRecords)])])]"
  by (simp add: recordedTwice_def SetupEventForTime_def setupMap_def lookupStats_def
      storeStats_def candle_def zeroStatistic_def twoRecords_def zeroCurrencyStatistic_def
      newEventStore_def Let_def)

lemma recordedTwice_timeline:
  "timeline recordedTwice ''binance'' ''spot'' btcusd = Some twoRecords"
  by (simp add: timeline_def recordedTwice_store lookupStats_def)

theorem SetupEventForTime_duplicate_witness:
  "timeline recordedTwice ''binance'' ''spot'' btcusd = Some twoRecords
   \<and> newEventStore (candle btcusd 7 200) \<in> set (Events twoRecords)
   \<and> SetupEventForTime (=) recordedTwice (Some (candle btcusd 7 200))
       = (recordedTwice, Some ErrAlreadyProcessed)
   \<and> length (Events twoRecords) = 2"
proof -
  have t: "timeline recordedTwice (GetExchange (candle btcusd 7 200))
      (GetAssetType (candle btcusd 7 200)) (GetPair (candle btcusd 7 200)) = Some twoRecords"
    using recordedTwice_timeline by (simp add: candle_def)
  have r: "newEventStore (candle btcusd 7 200) \<in> set (Events twoRecords)"
    by (simp add: twoRecords_def)
  have d: "DataEvent (newEventStore (candle btcusd 7 200)) = candle btcusd 7 200"
    by (simp add: newEventStore_def)
  show ?thesis
    using SetupEventForTime_duplicate [of recordedTwice "candle btcusd 7 200" twoRecords
        "newEventStore (candle btcusd 7 200)" "(=)", OF t r]
      recordedTwice_timeline r d
    by (simp add: twoRecords_def)
qed

theorem SetEventForOffset_latest_match_witness:
  "timeline recordedTwice ''binance'' ''spot'' btcusd = Some twoRecords
   \<and> SetEventForOffset recordedTwice (Some (signalAt 9)) = (recordedTwice, None)
   \<and> SetEventForOffset recordedTwice (Some strangeEvent)
       = (recordedTwice, Some (Error errUnknownEventType))
   \<and> snd (SetEventForOffset recordedTwice (Some (signalAt 7))) = None
   \<and> timeline (fst (SetEventForOffset recordedTwice (Some (signalAt 7))))
         ''binance'' ''spot'' btcusd
       = Some (twoRecords\<lparr>Events :=
           [newEventStore (candle btcusd 7 100),
            (newEventStore (candle btcusd 7 200))\<lparr>SignalEvent := Some (signalAt 7)\<rparr>]\<rparr>)"
proof -
  have t: "timeline recordedTwice (GetExchange (signalAt n)) (GetAssetType (signalAt n))
      (GetPair (signalAt n)) = Some twoRecords" for n
    using recordedTwice_timeline by (simp add: signalAt_def candle_def)
  have t': "timeline recordedTwice (GetExchange strangeEvent) (GetAssetType strangeEvent)
      (GetPair strangeEvent) = Some twoRecords"
    using recordedTwice_timeline by (simp add: strangeEvent_def candle_def)
  have no: "\<forall>r \<in> set (Events twoRecords). GetOffset (DataEvent r) \<noteq> GetOffset (signalAt 9)"
    by (simp add: twoRecords_def newEventStore_def candle_def signalAt_def)
  have at: "1 < length (Events twoRecords)
      \<and> GetOffset (DataEvent (Events twoRecords ! 1)) = GetOffset (signalAt 7)
      \<and> (\<forall>j. 1 < j \<and> j < length (Events twoRecords) \<longrightarrow>
             GetOffset (DataEvent (Events twoRecords ! j)) \<noteq> GetOffset (signalAt 7))"
    by (simp add: twoRecords_def newEventStore_def candle_def signalAt_def)
  have at': "1 < length (Events twoRecords)
      \<and> GetOffset (DataEvent (Events twoRecords ! 1)) = GetOffset strangeEvent
      \<and> (\<forall>j. 1 < j \<and> j < length (Events twoRecords) \<longrightarrow>
             GetOffset (DataEvent (Events twoRecords ! j)) \<noteq> GetOffset strangeEvent)"
    by (simp add: twoRecords_def newEventStore_def candle_def strangeEvent_def)
  have k: "GetKind (signalAt 7) \<noteq> IsOtherEvent" "GetKind strangeEvent = IsOtherEvent"
    by (simp_all add: signalAt_def strangeEvent_def)
  have a: "SetEventForOffset recordedTwice (Some (signalAt 9)) = (recordedTwice, None)"
    using SetEventForOffset_latest_match [OF t [of 9]] no by blast
  have b: "SetEventForOffset recordedTwice (Some strangeEvent)
       = (recordedTwice, Some (Error errUnknownEventType))"
    using SetEventForOffset_latest_match [OF t'] at' k(2) by blast
  have c: "snd (SetEventForOffset recordedTwice (Some (signalAt 7))) = None
      \<and> timeline (fst (SetEventForOffset recordedTwice (Some (signalAt 7))))
           (GetExchange (signalAt 7)) (GetAssetType (signalAt 7)) (GetPair (signalAt 7))
         = Some (twoRecords\<lparr>Events :=
             (Events twoRecords)[1 := enrich (signalAt 7) (Events twoRecords ! 1)]\<rparr>)"
    using SetEventForOffset_latest_match [OF t [of 7]] at k(1) by presburger
  have e: "(Events twoRecords)[1 := enrich (signalAt 7) (Events twoRecords ! 1)]
      = [newEventStore (candle btcusd 7 100),
         (newEventStore (candle btcusd 7 200))\<lparr>SignalEvent := Some (signalAt 7)\<rparr>]"
    by (simp add: twoRecords_def enrich_def signalAt_def)
  have g: "GetExchange (signalAt 7) = ''binance''" "GetAssetType (signalAt 7) = ''spot''"
    "GetPair (signalAt 7) = btcusd"
    by (simp_all add: signalAt_def candle_def)
  show ?thesis
    using recordedTwice_timeline a b c unfolding e g by simp
qed


section \<open>Properties of the aggregation\<close>

lemma processTuple_empty:
  "Events st = [] \<Longrightarrow>
   snd (snd (processTuple funds calc ex a p st sl)) = Some (Panic IndexOutOfRange)"
  by (simp add: processTuple_def)

lemma processTuple_funding_error:
  "Events st \<noteq> [] \<Longrightarrow> GetFundingForEvent funds (activeEvent (last (Events st))) = Inl e \<Longrightarrow>
   processTuple funds calc ex a p st (s, l) =
     (st, (s, l\<lparr>currCount := currCount l + 1,
               startDate := GetTime (DataEvent (hd (Events st))),
               endDate := GetTime (DataEvent (last (Events st)))\<rparr>), Some (Error e))"
  by (cases "Events st") (simp_all add: processTuple_def)

lemma processTuple_fundable:
  "fundable funds st \<Longrightarrow>
   processTuple funds calc ex a p st (s, l) =
     (finalStats funds calc st,
      (s\<lparr>AllStats := AllStats s @ [finalStats funds calc st],
         TotalBuyOrders := TotalBuyOrders s + BuyOrders (finalStats funds calc st),
         TotalSellOrders := TotalSellOrders s + SellOrders (finalStats funds calc st),
         WasAnyDataMissing :=
           (ShowMissingDataWarning (finalStats funds calc st) \<or> WasAnyDataMissing s)\<rparr>,
       l\<lparr>currCount := currCount l + 1,
         startDate := GetTime (DataEvent (hd (Events st))),
         endDate := GetTime (DataEvent (last (Events st))),
         finalResults := finalResults l @ [resultsHolder ex a p (finalStats funds calc st)]\<rparr>),
      None)"
  by (cases "Events st"; cases "GetFundingForEvent funds (activeEvent (last (Events st)))")
    (simp_all add: fundable_def processTuple_def finalStats_def Let_def)

lemma processTuple_nonempty_no_panic:
  "Events st \<noteq> [] \<Longrightarrow>
   snd (snd (processTuple funds calc ex a p st sl)) \<noteq> Some (Panic IndexOutOfRange)"
  by (cases "Events st"; cases "GetFundingForEvent funds (activeEvent (last (Events st)))")
    (simp_all add: processTuple_def Let_def)

lemma visitLoop_append:
  "visitLoop funds calc (xs @ ys) sl =
     (case visitLoop funds calc xs sl of
        (sl', Some x) \<Rightarrow> (sl', Some x)
      | (sl', None) \<Rightarrow> visitLoop funds calc ys sl')"
  by (induction xs arbitrary: sl) (auto split: prod.splits option.splits)

lemma pairLoop_visit:
  "snd (pairLoop funds calc ex a pm sl) = visitLoop funds calc (pairVisits ex a pm) sl"
proof (induction pm arbitrary: sl)
  case Nil
  then show ?case by simp
next
  case (Cons x pm)
  obtain p st where x: "x = (p, st)" by (cases x)
  obtain st' sl' r where pt: "processTuple funds calc ex a p st sl = (st', sl', r)"
    by (cases "processTuple funds calc ex a p st sl") auto
  show ?case
  proof (cases r)
    case None
    obtain rest' sl'' r' where pl: "pairLoop funds calc ex a pm sl' = (rest', sl'', r')"
      by (cases "pairLoop funds calc ex a pm sl'") auto
    have "visitLoop funds calc (pairVisits ex a pm) sl' = (sl'', r')"
      using Cons.IH [of sl'] pl by simp
    then show ?thesis using x pt None pl by simp
  next
    case (Some f)
    then show ?thesis using x pt by simp
  qed
qed

lemma assetLoop_visit:
  "snd (assetLoop funds calc ex am sl) = visitLoop funds calc (assetVisits ex am) sl"
proof (induction am arbitrary: sl)
  case Nil
  then show ?case by simp
next
  case (Cons x am)
  obtain a pm where x: "x = (a, pm)" by (cases x)
  obtain pm' sl' r where p: "pairLoop funds calc ex a pm sl = (pm', sl', r)"
    by (cases "pairLoop funds calc ex a pm sl") auto
  have v: "visitLoop funds calc (pairVisits ex a pm) sl = (sl', r)"
    using pairLoop_visit [of funds calc ex a pm sl] p by simp
  show ?case
  proof (cases r)
    case None
    obtain rest' sl'' r' where al: "assetLoop funds calc ex am sl' = (rest', sl'', r')"
      by (cases "assetLoop funds calc ex am sl'") auto
    have "visitLoop funds calc (assetVisits ex am) sl' = (sl'', r')"
      using Cons.IH [of sl'] al by simp
    then show ?thesis using x p v None al by (simp add: visitLoop_append)
  next
    case (Some f)
    then show ?thesis using x p v by (simp add: visitLoop_append)
  qed
qed

lemma exchangeLoop_visit:
  "snd (exchangeLoop funds calc m sl) = visitLoop funds calc (tuples m) sl"
proof (induction m arbitrary: sl)
  case Nil
  then show ?case by simp
next
  case (Cons x m)
  obtain ex am where x: "x = (ex, am)" by (cases x)
  obtain am' sl' r where p: "assetLoop funds calc ex am sl = (am', sl', r)"
    by (cases "assetLoop funds calc ex am sl") auto
  have v: "visitLoop funds calc (assetVisits ex am) sl = (sl', r)"
    using assetLoop_visit [of funds calc ex am sl] p by simp
  show ?case
  proof (cases r)
    case None
    obtain rest' sl'' r' where el: "exchangeLoop funds calc m sl' = (rest', sl'', r')"
      by (cases "exchangeLoop funds calc m sl'") auto
    have "visitLoop funds calc (tuples m) sl' = (sl'', r')"
      using Cons.IH [of sl'] el by simp
    then show ?thesis using x p v None el by (simp add: visitLoop_append)
  next
    case (Some f)
    then show ?thesis using x p v by (simp add: visitLoop_append)
  qed
qed

lemma aggregate_visit:
  "snd (aggregate funds calc s) = visitLoop funds calc (storeTuples s) (s, zeroLocals)"
  by (simp add: aggregate_def storeTuples_def exchangeLoop_visit)

lemma visitLoop_fundable:
  assumes "\<forall>t \<in> set ts. fundable funds (statsOf t)"
  shows "snd (visitLoop funds calc ts (s, l)) = None
    \<and> AllStats (fst (fst (visitLoop funds calc ts (s, l))))
        = AllStats s @ map (\<lambda>t. finalStats funds calc (statsOf t)) ts
    \<and> TotalBuyOrders (fst (fst (visitLoop funds calc ts (s, l))))
        = TotalBuyOrders s + sum_list (map (\<lambda>t. BuyOrders (finalStats funds calc (statsOf t))) ts)
    \<and> TotalSellOrders (fst (fst (visitLoop funds calc ts (s, l))))
        = TotalSellOrders s + sum_list (map (\<lambda>t. SellOrders (finalStats funds calc (statsOf t))) ts)
    \<and> Funding (fst (fst (visitLoop funds calc ts (s, l)))) = Funding s
    \<and> finalResults (snd (fst (visitLoop funds calc ts (s, l))))
        = finalResults l @ map (finalHolder funds calc) ts
    \<and> currCount (snd (fst (visitLoop funds calc ts (s, l)))) = currCount l + length ts
    \<and> startDate (snd (fst (visitLoop funds calc ts (s, l))))
        = (if ts = [] then startDate l
           else GetTime (DataEvent (hd (Events (statsOf (last ts))))))
    \<and> endDate (snd (fst (visitLoop funds calc ts (s, l))))
        = (if ts = [] then endDate l
           else GetTime (DataEvent (last (Events (statsOf (last ts))))))"
  using assms
proof (induction ts arbitrary: s l)
  case Nil
  then show ?case by simp
next
  case (Cons t ts)
  obtain ex a p st where t: "t = (ex, a, p, st)" by (cases t) auto
  have f: "fundable funds st" using Cons.prems t by (simp add: statsOf_def)
  have rest: "\<forall>u \<in> set ts. fundable funds (statsOf u)" using Cons.prems by simp
  note step = processTuple_fundable [OF f, of calc ex a p s l]
  note ih = Cons.IH [OF rest]
  show ?case
    unfolding t visitLoop.simps step
    by (simp add: ih statsOf_def finalHolder_def add.assoc)
qed

lemma visitLoop_funding_error:
  assumes "ts = pre @ (ex, a, p, st) # post"
    and "\<forall>t \<in> set pre. fundable funds (statsOf t)"
    and "Events st \<noteq> []"
    and "GetFundingForEvent funds (activeEvent (last (Events st))) = Inl e"
  shows "snd (visitLoop funds calc ts (s, l)) = Some (Error e)
    \<and> AllStats (fst (fst (visitLoop funds calc ts (s, l))))
        = AllStats s @ map (\<lambda>t. finalStats funds calc (statsOf t)) pre
    \<and> Funding (fst (fst (visitLoop funds calc ts (s, l)))) = Funding s"
proof -
  obtain s' l' where v: "visitLoop funds calc pre (s, l) = ((s', l'), None)"
    using visitLoop_fundable [OF assms(2), of calc s l]
    by (cases "visitLoop funds calc pre (s, l)") auto
  have s': "AllStats s' = AllStats s @ map (\<lambda>t. finalStats funds calc (statsOf t)) pre"
    "Funding s' = Funding s"
    using visitLoop_fundable [OF assms(2), of calc s l] v by simp_all
  show ?thesis
    unfolding assms(1) visitLoop_append v
    by (simp add: processTuple_funding_error [OF assms(3,4)] s')
qed

lemma visitLoop_empty_timeline:
  assumes "ts = pre @ (ex, a, p, st) # post"
    and "\<forall>t \<in> set pre. fundable funds (statsOf t)"
    and "Events st = []"
  shows "snd (visitLoop funds calc ts sl) = Some (Panic IndexOutOfRange)"
proof -
  obtain s l where sl: "sl = (s, l)" by (cases sl)
  obtain s' l' where v: "visitLoop funds calc pre (s, l) = ((s', l'), None)"
    using visitLoop_fundable [OF assms(2), of calc s l]
    by (cases "visitLoop funds calc pre (s, l)") auto
  obtain st' sl' where pt: "processTuple funds calc ex a p st (s', l')
      = (st', sl', Some (Panic IndexOutOfRange))"
    using processTuple_empty [OF assms(3), of funds calc ex a p "(s', l')"]
    by (cases "processTuple funds calc ex a p st (s', l')") auto
  show ?thesis
    unfolding assms(1) sl visitLoop_append v by (simp add: pt)
qed

lemma visitLoop_no_panic:
  assumes "\<forall>t \<in> set ts. Events (statsOf t) \<noteq> []"
  shows "snd (visitLoop funds calc ts sl) \<noteq> Some (Panic IndexOutOfRange)"
  using assms
proof (induction ts arbitrary: sl)
  case Nil
  then show ?case by simp
next
  case (Cons t ts)
  obtain ex a p st where t: "t = (ex, a, p, st)" by (cases t) auto
  have ne: "Events st \<noteq> []" using Cons.prems t by (simp add: statsOf_def)
  obtain st' sl' r where pt: "processTuple funds calc ex a p st sl = (st', sl', r)"
    by (cases "processTuple funds calc ex a p st sl") auto
  have r: "r \<noteq> Some (Panic IndexOutOfRange)"
    using processTuple_nonempty_no_panic [OF ne, of funds calc ex a p sl] pt by simp
  show ?case
  proof (cases r)
    case None
    then show ?thesis using t pt Cons.IH [of sl'] Cons.prems by simp
  next
    case (Some x)
    then show ?thesis using t pt r by simp
  qed
qed

lemma map_of_apsnd:
  "map_of (map (apsnd f) xs) k = map_option f (map_of xs k)"
  by (induction xs) auto

lemma lookupStats_finalMap:
  "lookupStats (finalMap funds calc m) ex a p
     = map_option (finalStats funds calc) (lookupStats m ex a p)"
  by (simp add: lookupStats_def finalMap_def map_of_apsnd split: option.splits)

lemma pairLoop_Cons_fst:
  "snd (snd (processTuple funds calc ex a p st sl)) = None \<Longrightarrow>
   fst (pairLoop funds calc ex a ((p, st) # pm) sl)
     = (p, fst (processTuple funds calc ex a p st sl))
       # fst (pairLoop funds calc ex a pm (fst (snd (processTuple funds calc ex a p st sl))))"
  by (auto split: prod.splits option.splits)

lemma assetLoop_Cons_fst:
  "snd (snd (pairLoop funds calc ex a pm sl)) = None \<Longrightarrow>
   fst (assetLoop funds calc ex ((a, pm) # am) sl)
     = (a, fst (pairLoop funds calc ex a pm sl))
       # fst (assetLoop funds calc ex am (fst (snd (pairLoop funds calc ex a pm sl))))"
  by (auto split: prod.splits option.splits)

lemma exchangeLoop_Cons_fst:
  "snd (snd (assetLoop funds calc ex am sl)) = None \<Longrightarrow>
   fst (exchangeLoop funds calc ((ex, am) # m) sl)
     = (ex, fst (assetLoop funds calc ex am sl))
       # fst (exchangeLoop funds calc m (fst (snd (assetLoop funds calc ex am sl))))"
  by (auto split: prod.splits option.splits)

lemma pairLoop_fundable:
  assumes "\<forall>t \<in> set (pairVisits ex a pm). fundable funds (statsOf t)"
  shows "fst (pairLoop funds calc ex a pm sl) = map (apsnd (finalStats funds calc)) pm"
  using assms
proof (induction pm arbitrary: sl)
  case Nil
  then show ?case by simp
next
  case (Cons x pm)
  obtain p st where x: "x = (p, st)" by (cases x)
  obtain s l where sl: "sl = (s, l)" by (cases sl)
  have f: "fundable funds st" using Cons.prems x by (simp add: statsOf_def)
  have rest: "\<forall>t \<in> set (pairVisits ex a pm). fundable funds (statsOf t)"
    using Cons.prems x by simp
  have step: "snd (snd (processTuple funds calc ex a p st sl)) = None"
    "fst (processTuple funds calc ex a p st sl) = finalStats funds calc st"
    unfolding sl by (simp_all add: processTuple_fundable [OF f])
  show ?case
    unfolding x pairLoop_Cons_fst [OF step(1)] step(2) Cons.IH [OF rest] by simp
qed

lemma assetLoop_fundable:
  assumes "\<forall>t \<in> set (assetVisits ex am). fundable funds (statsOf t)"
  shows "fst (assetLoop funds calc ex am sl)
     = map (apsnd (map (apsnd (finalStats funds calc)))) am"
  using assms
proof (induction am arbitrary: sl)
  case Nil
  then show ?case by simp
next
  case (Cons x am)
  obtain a pm where x: "x = (a, pm)" by (cases x)
  obtain s l where sl: "sl = (s, l)" by (cases sl)
  have here: "\<forall>t \<in> set (pairVisits ex a pm). fundable funds (statsOf t)"
    and rest: "\<forall>t \<in> set (assetVisits ex am). fundable funds (statsOf t)"
    using Cons.prems x by simp_all
  have r: "snd (snd (pairLoop funds calc ex a pm sl)) = None"
    unfolding pairLoop_visit sl using visitLoop_fundable [OF here] by blast
  show ?case
    unfolding x assetLoop_Cons_fst [OF r] pairLoop_fundable [OF here] Cons.IH [OF rest]
    by simp
qed

lemma exchangeLoop_fundable:
  assumes "\<forall>t \<in> set (tuples m). fundable funds (statsOf t)"
  shows "fst (exchangeLoop funds calc m sl) = finalMap funds calc m"
  using assms
proof (induction m arbitrary: sl)
  case Nil
  then show ?case by (simp add: finalMap_def)
next
  case (Cons x m)
  obtain ex am where x: "x = (ex, am)" by (cases x)
  obtain s l where sl: "sl = (s, l)" by (cases sl)
  have here: "\<forall>t \<in> set (assetVisits ex am). fundable funds (statsOf t)"
    and rest: "\<forall>t \<in> set (tuples m). fundable funds (statsOf t)"
    using Cons.prems x by simp_all
  have r: "snd (snd (assetLoop funds calc ex am sl)) = None"
    unfolding assetLoop_visit sl using visitLoop_fundable [OF here] by blast
  show ?case
    unfolding x exchangeLoop_Cons_fst [OF r] assetLoop_fundable [OF here] Cons.IH [OF rest]
    by (simp add: finalMap_def)
qed

lemma processTuple_withoutError:
  "processTuple funds (withoutError calc) ex a p st sl = processTuple funds calc ex a p st sl"
  by (simp add: processTuple_def withoutError_def Let_def split: list.splits sum.splits)

lemma pairLoop_withoutError:
  "pairLoop funds (withoutError calc) ex a pm sl = pairLoop funds calc ex a pm sl"
proof (induction pm arbitrary: sl)
  case Nil
  then show ?case by simp
next
  case (Cons x pm)
  then show ?case
    by (cases x) (simp add: processTuple_withoutError split: prod.splits option.splits)
qed

lemma assetLoop_withoutError:
  "assetLoop funds (withoutError calc) ex am sl = assetLoop funds calc ex am sl"
proof (induction am arbitrary: sl)
  case Nil
  then show ?case by simp
next
  case (Cons x am)
  then show ?case
    by (cases x) (simp add: pairLoop_withoutError split: prod.splits option.splits)
qed

lemma exchangeLoop_withoutError:
  "exchangeLoop funds (withoutError calc) m sl = exchangeLoop funds calc m sl"
proof (induction m arbitrary: sl)
  case Nil
  then show ?case by simp
next
  case (Cons x m)
  then show ?case
    by (cases x) (simp add: assetLoop_withoutError split: prod.splits option.splits)
qed

lemma aggregate_withoutError:
  "aggregate funds (withoutError calc) s = aggregate funds calc s"
  by (simp add: aggregate_def exchangeLoop_withoutError)

lemma CalculateAllResults_withoutError:
  "CalculateAllResults funds (withoutError calc) s = CalculateAllResults funds calc s"
  by (simp add: CalculateAllResults_def aggregate_withoutError)

lemma CalculateAllResults_snd:
  "snd (CalculateAllResults funds calc s) = snd (snd (aggregate funds calc s))"
  by (simp add: CalculateAllResults_def Let_def split: prod.splits option.splits)

lemma CalculateAllResults_fields:
  "AllStats (fst (CalculateAllResults funds calc s))
     = AllStats (fst (fst (snd (aggregate funds calc s))))"
  "TotalBuyOrders (fst (CalculateAllResults funds calc s))
     = TotalBuyOrders (fst (fst (snd (aggregate funds calc s))))"
  "TotalSellOrders (fst (CalculateAllResults funds calc s))
     = TotalSellOrders (fst (fst (snd (aggregate funds calc s))))"
  "ExchangeAssetPairStatistics (fst (CalculateAllResults funds calc s))
     = map_option (\<lambda>m. fst (aggregate funds calc s)) (ExchangeAssetPairStatistics s)"
  by (simp_all add: CalculateAllResults_def Let_def split: prod.splits option.splits)

lemma CalculateAllResults_Funding:
  "Funding (fst (CalculateAllResults funds calc s))
     = (case snd (snd (aggregate funds calc s)) of
          Some x \<Rightarrow> Funding (fst (fst (snd (aggregate funds calc s))))
        | None \<Rightarrow> GenerateReport funds
            (startDate (snd (fst (snd (aggregate funds calc s)))))
            (endDate (snd (fst (snd (aggregate funds calc s))))))"
  by (simp add: CalculateAllResults_def Let_def split: prod.splits option.splits)

lemma timeline_final:
  assumes "\<forall>t \<in> set (storeTuples s). fundable funds (statsOf t)"
  shows "timeline (fst (CalculateAllResults funds calc s)) ex a p
     = map_option (finalStats funds calc) (timeline s ex a p)"
proof (cases "ExchangeAssetPairStatistics s")
  case None
  then show ?thesis by (simp add: timeline_def CalculateAllResults_fields)
next
  case (Some m)
  have "\<forall>t \<in> set (tuples m). fundable funds (statsOf t)"
    using assms Some by (simp add: storeTuples_def)
  then have "fst (aggregate funds calc s) = finalMap funds calc m"
    using Some by (simp add: aggregate_def exchangeLoop_fundable)
  then show ?thesis
    using Some by (simp add: timeline_def CalculateAllResults_fields lookupStats_finalMap)
qed

lemma sorted_between:
  "sorted xs \<Longrightarrow> x \<in> set xs \<Longrightarrow> hd xs \<le> x \<and> x \<le> last xs"
  for xs :: "time list"
proof (induction xs)
  case Nil
  then show ?case by simp
next
  case (Cons y ys)
  then show ?case by (cases "ys = []") auto
qed

lemma report_of_last_tuple:
  assumes "storeTuples s \<noteq> []"
    and "\<forall>t \<in> set (storeTuples s). fundable funds (statsOf t)"
  shows "Funding (fst (CalculateAllResults funds calc s))
      = GenerateReport funds
          (GetTime (DataEvent (hd (Events (statsOf (last (storeTuples s)))))))
          (GetTime (DataEvent (last (Events (statsOf (last (storeTuples s)))))))"
  using visitLoop_fundable [OF assms(2), of calc s zeroLocals] assms(1)
  by (simp add: CalculateAllResults_Funding aggregate_visit)

lemma storeTuples_btcFirst:
  "storeTuples btcFirstStore
     = [(''binance'', ''spot'', btcusd, btcTimeline), (''binance'', ''spot'', ethusd, ethTimeline)]"
  by (simp add: storeTuples_def btcFirstStore_def)

lemma storeTuples_ethFirst:
  "storeTuples ethFirstStore
     = [(''binance'', ''spot'', ethusd, ethTimeline), (''binance'', ''spot'', btcusd, btcTimeline)]"
  by (simp add: storeTuples_def ethFirstStore_def)

lemma storeTuples_recordedTwice:
  "storeTuples recordedTwice = [(''binance'', ''spot'', btcusd, twoRecords)]"
  by (simp add: storeTuples_def recordedTwice_store)

lemma storeTuples_emptyTimeline:
  "storeTuples emptyTimelineStore = [(''binance'', ''spot'', btcusd, zeroCurrencyStatistic)]"
  by (simp add: storeTuples_def emptyTimelineStore_def)

lemma fundable_openFunds:
  "fundable openFunds btcTimeline" "fundable openFunds ethTimeline"
  "fundable openFunds twoRecords"
  by (simp_all add: fundable_def openFunds_def btcTimeline_def ethTimeline_def twoRecords_def)

lemma fundable_btcOnlyFunds:
  "fundable btcOnlyFunds btcTimeline"
  by (simp add: fundable_def btcOnlyFunds_def btcTimeline_def activeEvent_def newEventStore_def
      candle_def btcusd_def ethusd_def)

lemma ethTimeline_unfunded:
  "Events ethTimeline \<noteq> []"
  "GetFundingForEvent btcOnlyFunds (activeEvent (last (Events ethTimeline)))
     = Inl (errExternal ''no funding'')"
  by (simp_all add: btcOnlyFunds_def ethTimeline_def activeEvent_def newEventStore_def candle_def)

lemma recordTimes_inputs:
  "recordTimes btcTimeline = [1, 3]" "recordTimes ethTimeline = [2, 5]"
  "recordTimes twoRecords = [100, 200]"
  by (simp_all add: recordTimes_def btcTimeline_def ethTimeline_def twoRecords_def
      newEventStore_def candle_def)

text \<open>
  C5. In \<^verbatim>\<open>CalculateAllResults\<close> an error of \<^verbatim>\<open>GetFundingForEvent\<close> is returned at
  once: when the tuples visited before all had their funding and the lookup fails
  for the next one, the function returns that error, only the earlier tuples
  have been added to \<^verbatim>\<open>AllStats\<close> and no funding report is made. An error of
  \<^verbatim>\<open>CalculateResults\<close> has no effect on the outcome (the outcome is that of the
  calculator with its error removed): when every tuple has its funding the
  function returns \<^verbatim>\<open>nil\<close>, and every tuple has its initial and final holdings and
  final orders set in the store, its copy appended to \<^verbatim>\<open>AllStats\<close>, its
  results holder appended to the results list, and its buy and sell counts added
  to the totals.
\<close>

theorem CalculateAllResults_error_policy:
  "(\<forall>pre ex a p st post e.
      storeTuples s = pre @ (ex, a, p, st) # post
      \<and> (\<forall>t \<in> set pre. fundable funds (statsOf t))
      \<and> Events st \<noteq> []
      \<and> GetFundingForEvent funds (activeEvent (last (Events st))) = Inl e \<longrightarrow>
        snd (CalculateAllResults funds calc s) = Some (Error e)
        \<and> AllStats (fst (CalculateAllResults funds calc s))
            = AllStats s @ map (\<lambda>t. finalStats funds calc (statsOf t)) pre
        \<and> Funding (fst (CalculateAllResults funds calc s)) = Funding s)
   \<and> CalculateAllResults funds calc s = CalculateAllResults funds (withoutError calc) s
   \<and> ((\<forall>t \<in> set (storeTuples s). fundable funds (statsOf t)) \<longrightarrow>
        snd (CalculateAllResults funds calc s) = None
        \<and> (\<forall>ex a p. timeline (fst (CalculateAllResults funds calc s)) ex a p
              = map_option (finalStats funds calc) (timeline s ex a p))
        \<and> AllStats (fst (CalculateAllResults funds calc s))
            = AllStats s @ map (\<lambda>t. finalStats funds calc (statsOf t)) (storeTuples s)
        \<and> finalResults (snd (fst (snd (aggregate funds calc s))))
            = map (finalHolder funds calc) (storeTuples s)
        \<and> TotalBuyOrders (fst (CalculateAllResults funds calc s))
            = TotalBuyOrders s
              + sum_list (map (\<lambda>t. BuyOrders (finalStats funds calc (statsOf t))) (storeTuples s))
        \<and> TotalSellOrders (fst (CalculateAllResults funds calc s))
            = TotalSellOrders s
              + sum_list (map (\<lambda>t. SellOrders (finalStats funds calc (statsOf t))) (storeTuples s)))
   \<and> FinalHoldings (finalStats funds calc stats) = Holdings (last (Events stats))
   \<and> InitialHoldings (finalStats funds calc stats) = Holdings (hd (Events stats))
   \<and> FinalOrders (finalStats funds calc stats) = Transactions (last (Events stats))"
proof -
  have abort: "snd (CalculateAllResults funds calc s) = Some (Error e)
        \<and> AllStats (fst (CalculateAllResults funds calc s))
            = AllStats s @ map (\<lambda>t. finalStats funds calc (statsOf t)) pre
        \<and> Funding (fst (CalculateAllResults funds calc s)) = Funding s"
    if "storeTuples s = pre @ (ex, a, p, st) # post"
      and "\<forall>t \<in> set pre. fundable funds (statsOf t)"
      and "Events st \<noteq> []"
      and "GetFundingForEvent funds (activeEvent (last (Events st))) = Inl e"
    for pre ex a p st post e
    using visitLoop_funding_error [OF that, of calc s zeroLocals]
    by (simp add: CalculateAllResults_snd CalculateAllResults_fields
        CalculateAllResults_Funding aggregate_visit)
  have complete: "snd (CalculateAllResults funds calc s) = None
        \<and> (\<forall>ex a p. timeline (fst (CalculateAllResults funds calc s)) ex a p
              = map_option (finalStats funds calc) (timeline s ex a p))
        \<and> AllStats (fst (CalculateAllResults funds calc s))
            = AllStats s @ map (\<lambda>t. finalStats funds calc (statsOf t)) (storeTuples s)
        \<and> finalResults (snd (fst (snd (aggregate funds calc s))))
            = map (finalHolder funds calc) (storeTuples s)
        \<and> TotalBuyOrders (fst (CalculateAllResults funds calc s))
            = TotalBuyOrders s
              + sum_list (map (\<lambda>t. BuyOrders (finalStats funds calc (statsOf t))) (storeTuples s))
        \<and> TotalSellOrders (fst (CalculateAllResults funds calc s))
            = TotalSellOrders s
              + sum_list (map (\<lambda>t. SellOrders (finalStats funds calc (statsOf t))) (storeTuples s))"
    if f: "\<forall>t \<in> set (storeTuples s). fundable funds (statsOf t)"
    using visitLoop_fundable [OF f, of calc s zeroLocals] timeline_final [OF f, of calc]
    by (simp add: CalculateAllResults_snd CalculateAllResults_fields aggregate_visit
        zeroLocals_def)
  have populated: "FinalHoldings (finalStats funds calc stats) = Holdings (last (Events stats))
      \<and> InitialHoldings (finalStats funds calc stats) = Holdings (hd (Events stats))
      \<and> FinalOrders (finalStats funds calc stats) = Transactions (last (Events stats))"
    by (simp add: finalStats_def)
  show ?thesis
    using abort complete populated CalculateAllResults_withoutError [of funds calc s]
    by (intro conjI allI impI) (simp | blast)+
qed

theorem CalculateAllResults_error_policy_witness:
  "storeTuples btcFirstStore
     = [(''binance'', ''spot'', btcusd, btcTimeline)]
       @ (''binance'', ''spot'', ethusd, ethTimeline) # []
   \<and> fundable btcOnlyFunds btcTimeline
   \<and> Events ethTimeline \<noteq> []
   \<and> GetFundingForEvent btcOnlyFunds (activeEvent (last (Events ethTimeline)))
       = Inl (errExternal ''no funding'')
   \<and> snd (CalculateAllResults btcOnlyFunds failingCalculator btcFirstStore)
       = Some (Error (errExternal ''no funding''))
   \<and> Funding (fst (CalculateAllResults btcOnlyFunds failingCalculator btcFirstStore)) = (0, 0)
   \<and> fundable openFunds btcTimeline \<and> fundable openFunds ethTimeline
   \<and> snd (failingCalculator () btcTimeline) = Some (errExternal ''calculation failed'')
   \<and> snd (CalculateAllResults openFunds failingCalculator btcFirstStore) = None
   \<and> length (AllStats (fst (CalculateAllResults openFunds failingCalculator btcFirstStore))) = 2
   \<and> TotalBuyOrders (fst (CalculateAllResults openFunds failingCalculator btcFirstStore)) = 4
   \<and> TotalSellOrders (fst (CalculateAllResults openFunds failingCalculator btcFirstStore)) = 2"
proof -
  have t: "storeTuples btcFirstStore
     = [(''binance'', ''spot'', btcusd, btcTimeline)]
       @ (''binance'', ''spot'', ethusd, ethTimeline) # []"
    by (simp add: storeTuples_btcFirst)
  have pre: "\<forall>t \<in> set [(''binance'', ''spot'', btcusd, btcTimeline)].
      fundable btcOnlyFunds (statsOf t)"
    by (simp add: statsOf_def fundable_btcOnlyFunds)
  have all: "\<forall>t \<in> set (storeTuples btcFirstStore). fundable openFunds (statsOf t)"
    by (simp add: storeTuples_btcFirst statsOf_def fundable_openFunds)
  have c: "snd (failingCalculator () btcTimeline) = Some (errExternal ''calculation failed'')"
    by (simp add: failingCalculator_def)
  have z: "Funding btcFirstStore = (0, 0)" "TotalBuyOrders btcFirstStore = 0"
    "TotalSellOrders btcFirstStore = 0" "AllStats btcFirstStore = []"
    by (simp_all add: btcFirstStore_def zeroStatistic_def)
  have n: "BuyOrders (finalStats openFunds failingCalculator st) = 2"
    "SellOrders (finalStats openFunds failingCalculator st) = 1" for st
    by (simp_all add: finalStats_def populate_def failingCalculator_def)
  note policy = CalculateAllResults_error_policy [of btcFirstStore _ failingCalculator]
  have abort: "snd (CalculateAllResults btcOnlyFunds failingCalculator btcFirstStore)
       = Some (Error (errExternal ''no funding''))
     \<and> Funding (fst (CalculateAllResults btcOnlyFunds failingCalculator btcFirstStore)) = (0, 0)"
    using policy [of btcOnlyFunds, THEN conjunct1, rule_format,
        of "[(''binance'', ''spot'', btcusd, btcTimeline)]" "''binance''" "''spot''" ethusd
          ethTimeline "[]" "errExternal ''no funding''"]
      t pre ethTimeline_unfunded z(1)
    by simp
  note full = policy [of openFunds, THEN conjunct2, THEN conjunct2, THEN conjunct1, THEN mp,
      OF all]
  note c1 = full [THEN conjunct1]
  note c3 = full [THEN conjunct2, THEN conjunct2, THEN conjunct1]
  note c5 = full [THEN conjunct2, THEN conjunct2, THEN conjunct2, THEN conjunct2, THEN conjunct1]
  note c6 = full [THEN conjunct2, THEN conjunct2, THEN conjunct2, THEN conjunct2, THEN conjunct2]
  have counts: "snd (CalculateAllResults openFunds failingCalculator btcFirstStore) = None
     \<and> length (AllStats (fst (CalculateAllResults openFunds failingCalculator btcFirstStore))) = 2
     \<and> TotalBuyOrders (fst (CalculateAllResults openFunds failingCalculator btcFirstStore)) = 4
     \<and> TotalSellOrders (fst (CalculateAllResults openFunds failingCalculator btcFirstStore)) = 2"
    unfolding c1 c3 c5 c6 by (simp add: z n storeTuples_btcFirst)
  show ?thesis
    using t c abort counts ethTimeline_unfunded fundable_btcOnlyFunds fundable_openFunds(1,2)
    by blast
qed

text \<open>
  C8, as stated, fails. With BTC-USD recorded at the times 1 and 3 and ETH-USD at
  the times 2 and 5, the earliest record time is 1 and the latest is 5. The
  report is asked for the dates 2 and 5 when ETH-USD is visited last and for the
  dates 1 and 3 when BTC-USD is visited last: the dates of each iteration
  overwrite those of the one before.
\<close>

theorem report_dates_counterexample:
  "Funding (fst (CalculateAllResults openFunds failingCalculator btcFirstStore)) = (2, 5)
   \<and> Funding (fst (CalculateAllResults openFunds failingCalculator ethFirstStore)) = (1, 3)
   \<and> Min (set (allRecordTimes btcFirstStore)) = 1 \<and> Max (set (allRecordTimes btcFirstStore)) = 5
   \<and> Min (set (allRecordTimes ethFirstStore)) = 1 \<and> Max (set (allRecordTimes ethFirstStore)) = 5
   \<and> GenerateReport openFunds 1 5 = (1, 5)
   \<and> Funding (fst (CalculateAllResults openFunds failingCalculator btcFirstStore))
       \<noteq> GenerateReport openFunds (Min (set (allRecordTimes btcFirstStore)))
            (Max (set (allRecordTimes btcFirstStore)))
   \<and> Funding (fst (CalculateAllResults openFunds failingCalculator ethFirstStore))
       \<noteq> GenerateReport openFunds (Min (set (allRecordTimes ethFirstStore)))
            (Max (set (allRecordTimes ethFirstStore)))"
proof -
  have b: "Funding (fst (CalculateAllResults openFunds failingCalculator btcFirstStore)) = (2, 5)"
    using report_of_last_tuple [of btcFirstStore openFunds failingCalculator]
    by (simp add: storeTuples_btcFirst statsOf_def fundable_openFunds)
      (simp add: ethTimeline_def newEventStore_def candle_def openFunds_def)
  have e: "Funding (fst (CalculateAllResults openFunds failingCalculator ethFirstStore)) = (1, 3)"
    using report_of_last_tuple [of ethFirstStore openFunds failingCalculator]
    by (simp add: storeTuples_ethFirst statsOf_def fundable_openFunds)
      (simp add: btcTimeline_def newEventStore_def candle_def openFunds_def)
  have tb: "set (allRecordTimes btcFirstStore) = {1, 2, 3, 5}"
    by (auto simp: allRecordTimes_def storeTuples_btcFirst statsOf_def recordTimes_inputs)
  have te: "set (allRecordTimes ethFirstStore) = {1, 2, 3, 5}"
    by (auto simp: allRecordTimes_def storeTuples_ethFirst statsOf_def recordTimes_inputs)
  have g: "GenerateReport openFunds 1 5 = (1, 5)"
    by (simp add: openFunds_def)
  show ?thesis
    unfolding b e tb te using g by simp
qed

text \<open>
  C8, amended. When the store has a tuple and every tuple has its funding,
  \<^verbatim>\<open>CalculateAllResults\<close> calls \<^verbatim>\<open>GenerateReport\<close> with the time of the first
  record and the time of the last record of the tuple that the loops visit last.
  These are the earliest and the latest record time across all tuples when every
  timeline is in ascending order of time and all timelines begin at the same
  time and end at the same time, as with a single tuple.
\<close>

theorem CalculateAllResults_report_dates:
  assumes "storeTuples s \<noteq> []"
    and "\<forall>t \<in> set (storeTuples s). fundable funds (statsOf t)"
  shows "Funding (fst (CalculateAllResults funds calc s))
      = GenerateReport funds (hd (recordTimes (statsOf (last (storeTuples s)))))
          (last (recordTimes (statsOf (last (storeTuples s)))))
    \<and> ((\<forall>t \<in> set (storeTuples s).
           sorted (recordTimes (statsOf t))
           \<and> hd (recordTimes (statsOf t)) = hd (recordTimes (statsOf (last (storeTuples s))))
           \<and> last (recordTimes (statsOf t)) = last (recordTimes (statsOf (last (storeTuples s)))))
        \<longrightarrow> Funding (fst (CalculateAllResults funds calc s))
              = GenerateReport funds (Min (set (allRecordTimes s))) (Max (set (allRecordTimes s))))"
proof -
  define u where "u = statsOf (last (storeTuples s))"
  have uin: "last (storeTuples s) \<in> set (storeTuples s)"
    using assms(1) by simp
  have ne: "Events u \<noteq> []"
    using assms(2) uin unfolding u_def by (auto simp: fundable_def split: list.splits)
  have hd_u: "hd (recordTimes u) = GetTime (DataEvent (hd (Events u)))"
    and last_u: "last (recordTimes u) = GetTime (DataEvent (last (Events u)))"
    using ne by (simp_all add: recordTimes_def hd_map last_map)
  have "Funding (fst (CalculateAllResults funds calc s))
      = GenerateReport funds (GetTime (DataEvent (hd (Events u))))
          (GetTime (DataEvent (last (Events u))))"
    using visitLoop_fundable [OF assms(2), of calc s zeroLocals] assms(1)
    by (simp add: CalculateAllResults_Funding aggregate_visit u_def)
  then have first: "Funding (fst (CalculateAllResults funds calc s))
      = GenerateReport funds (hd (recordTimes u)) (last (recordTimes u))"
    by (simp only: hd_u last_u)
  have second: "Min (set (allRecordTimes s)) = hd (recordTimes u)
      \<and> Max (set (allRecordTimes s)) = last (recordTimes u)"
    if common: "\<forall>t \<in> set (storeTuples s).
           sorted (recordTimes (statsOf t))
           \<and> hd (recordTimes (statsOf t)) = hd (recordTimes u)
           \<and> last (recordTimes (statsOf t)) = last (recordTimes u)"
  proof -
    have all: "set (allRecordTimes s) = (\<Union>t \<in> set (storeTuples s). set (recordTimes (statsOf t)))"
      by (simp add: allRecordTimes_def)
    have rne: "recordTimes u \<noteq> []" using ne by (simp add: recordTimes_def)
    have "hd (recordTimes u) \<in> set (recordTimes u)" "last (recordTimes u) \<in> set (recordTimes u)"
      using rne by simp_all
    then have mem: "hd (recordTimes u) \<in> set (allRecordTimes s)"
      "last (recordTimes u) \<in> set (allRecordTimes s)"
      unfolding all using uin u_def by blast+
    have bounds: "hd (recordTimes u) \<le> x \<and> x \<le> last (recordTimes u)"
      if x: "x \<in> set (allRecordTimes s)" for x
    proof -
      obtain t where t: "t \<in> set (storeTuples s)" "x \<in> set (recordTimes (statsOf t))"
        using x unfolding all by blast
      show ?thesis
        using sorted_between [of "recordTimes (statsOf t)" x] common t by auto
    qed
    have "Min (set (allRecordTimes s)) = hd (recordTimes u)"
      by (rule Min_eqI) (use mem bounds in auto)
    moreover have "Max (set (allRecordTimes s)) = last (recordTimes u)"
      by (rule Max_eqI) (use mem bounds in auto)
    ultimately show ?thesis by simp
  qed
  show ?thesis
    using first second unfolding u_def by simp
qed

theorem CalculateAllResults_report_dates_witness:
  "storeTuples recordedTwice = [(''binance'', ''spot'', btcusd, twoRecords)]
   \<and> fundable openFunds twoRecords
   \<and> sorted (recordTimes twoRecords)
   \<and> Funding (fst (CalculateAllResults openFunds failingCalculator recordedTwice)) = (100, 200)
   \<and> Min (set (allRecordTimes recordedTwice)) = 100
   \<and> Max (set (allRecordTimes recordedTwice)) = 200"
proof -
  have ne: "storeTuples recordedTwice \<noteq> []"
    by (simp add: storeTuples_recordedTwice)
  have f: "\<forall>t \<in> set (storeTuples recordedTwice). fundable openFunds (statsOf t)"
    by (simp add: storeTuples_recordedTwice statsOf_def fundable_openFunds)
  have c: "\<forall>t \<in> set (storeTuples recordedTwice).
         sorted (recordTimes (statsOf t))
         \<and> hd (recordTimes (statsOf t)) = hd (recordTimes (statsOf (last (storeTuples recordedTwice))))
         \<and> last (recordTimes (statsOf t))
             = last (recordTimes (statsOf (last (storeTuples recordedTwice))))"
    by (simp add: storeTuples_recordedTwice statsOf_def recordTimes_inputs)
  have m: "Min (set (allRecordTimes recordedTwice)) = 100"
    "Max (set (allRecordTimes recordedTwice)) = 200"
    by (simp_all add: allRecordTimes_def storeTuples_recordedTwice statsOf_def recordTimes_inputs)
  have "Funding (fst (CalculateAllResults openFunds failingCalculator recordedTwice))
      = GenerateReport openFunds (Min (set (allRecordTimes recordedTwice)))
          (Max (set (allRecordTimes recordedTwice)))"
    using CalculateAllResults_report_dates [OF ne f, of failingCalculator, THEN conjunct2] c
    by simp
  then have r: "Funding (fst (CalculateAllResults openFunds failingCalculator recordedTwice))
      = (100, 200)"
    unfolding m by (simp add: openFunds_def)
  have srt: "sorted (recordTimes twoRecords)"
    by (simp add: recordTimes_inputs)
  show ?thesis
    using storeTuples_recordedTwice fundable_openFunds(3) srt r m by blast
qed

text \<open>
  C10. \<^verbatim>\<open>CalculateAllResults\<close> indexes the last and the first record of every
  timeline it visits without a check. When every timeline of the store has a
  record, no access is out of range; when the loops reach a tuple whose timeline
  is empty (the tuples before it having had their funding), the access
  \<^verbatim>\<open>stats.Events[len(stats.Events)-1]\<close> is out of range and the call panics.
\<close>

theorem CalculateAllResults_timeline_bounds:
  "((\<forall>t \<in> set (storeTuples s). Events (statsOf t) \<noteq> []) \<longrightarrow>
       snd (CalculateAllResults funds calc s) \<noteq> Some (Panic IndexOutOfRange))
   \<and> (\<forall>pre ex a p st post.
        storeTuples s = pre @ (ex, a, p, st) # post
        \<and> (\<forall>t \<in> set pre. fundable funds (statsOf t))
        \<and> Events st = [] \<longrightarrow>
          snd (CalculateAllResults funds calc s) = Some (Panic IndexOutOfRange))"
  using visitLoop_no_panic [of "storeTuples s" funds calc "(s, zeroLocals)"]
    visitLoop_empty_timeline [of "storeTuples s" _ _ _ _ _ _ funds calc "(s, zeroLocals)"]
  by (simp add: CalculateAllResults_snd aggregate_visit)

theorem CalculateAllResults_timeline_bounds_witness:
  "Events btcTimeline \<noteq> [] \<and> Events ethTimeline \<noteq> []
   \<and> snd (CalculateAllResults openFunds failingCalculator btcFirstStore)
       \<noteq> Some (Panic IndexOutOfRange)
   \<and> storeTuples emptyTimelineStore
       = [] @ (''binance'', ''spot'', btcusd, zeroCurrencyStatistic) # []
   \<and> Events zeroCurrencyStatistic = []
   \<and> snd (CalculateAllResults openFunds failingCalculator emptyTimelineStore)
       = Some (Panic IndexOutOfRange)"
proof -
  have ne: "\<forall>t \<in> set (storeTuples btcFirstStore). Events (statsOf t) \<noteq> []"
    by (simp add: storeTuples_btcFirst statsOf_def btcTimeline_def ethTimeline_def)
  have t: "storeTuples emptyTimelineStore
       = [] @ (''binance'', ''spot'', btcusd, zeroCurrencyStatistic) # []"
    by (simp add: storeTuples_emptyTimeline)
  have e: "Events zeroCurrencyStatistic = []"
    by (simp add: zeroCurrencyStatistic_def)
  have pre: "\<forall>t \<in> set []. fundable openFunds (statsOf t)"
    by simp
  have a: "snd (CalculateAllResults openFunds failingCalculator btcFirstStore)
       \<noteq> Some (Panic IndexOutOfRange)"
    using CalculateAllResults_timeline_bounds [of btcFirstStore openFunds failingCalculator,
        THEN conjunct1] ne
    by simp
  have b: "snd (CalculateAllResults openFunds failingCalculator emptyTimelineStore)
       = Some (Panic IndexOutOfRange)"
    using CalculateAllResults_timeline_bounds [of emptyTimelineStore openFunds failingCalculator,
        THEN conjunct2, rule_format,
        of "[]" "''binance''" "''spot''" btcusd zeroCurrencyStatistic "[]"]
      t e pre
    by simp
  have ne': "Events btcTimeline \<noteq> []" "Events ethTimeline \<noteq> []"
    by (simp_all add: btcTimeline_def ethTimeline_def)
  show ?thesis using ne' t e a b by blast
qed

section \<open>Properties of the sizing engine\<close>





text \<open>
  C7. \<^verbatim>\<open>SizeOrder\<close> returns \<open>ErrNilArguments\<close> for an absent order; \<open>errNoFunds\<close>
  for zero funds and an order with a nonzero price, whatever the order's
  direction (the funds check comes before the dispatch); and
  \<open>errCannotAllocate\<close> for nonzero funds, a nonzero price and a direction that
  is neither buy nor sell.
\<close>

theorem SizeOrder_errors:
  "SizeOrder s None availableFunds cs = Inl (Error ErrNilArguments)
   \<and> (Price ord \<noteq> 0 \<longrightarrow> SizeOrder s (Some ord) 0 cs = Inl (Error errNoFunds))
   \<and> (availableFunds \<noteq> 0 \<and> Price ord \<noteq> 0 \<and> Direction ord \<noteq> Buy \<and> Direction ord \<noteq> Sell \<longrightarrow>
        SizeOrder s (Some ord) availableFunds cs = Inl (Error errCannotAllocate))"
  by (cases "Direction ord") (simp_all add: SizeOrder_def)

theorem SizeOrder_errors_witness:
  "Price unsetOrder \<noteq> 0 \<and> (1337::decimal) \<noteq> 0
   \<and> Direction unsetOrder \<noteq> Buy \<and> Direction unsetOrder \<noteq> Sell
   \<and> SizeOrder zeroSize None 1337 \<lparr>ExchangeFee = 0\<rparr> = Inl (Error ErrNilArguments)
   \<and> SizeOrder zeroSize (Some unsetOrder) 0 \<lparr>ExchangeFee = 0\<rparr> = Inl (Error errNoFunds)
   \<and> SizeOrder zeroSize (Some (unsetOrder\<lparr>Direction := Buy\<rparr>)) 0 \<lparr>ExchangeFee = 0\<rparr>
       = Inl (Error errNoFunds)
   \<and> SizeOrder zeroSize (Some unsetOrder) 1337 \<lparr>ExchangeFee = 0\<rparr>
       = Inl (Error errCannotAllocate)"
proof -
  have h: "Price unsetOrder \<noteq> 0" "Direction unsetOrder \<noteq> Buy" "Direction unsetOrder \<noteq> Sell"
    "Price (unsetOrder\<lparr>Direction := Buy\<rparr>) \<noteq> 0"
    by (simp_all add: unsetOrder_def)
  have f: "(1337::decimal) \<noteq> 0" by simp
  show ?thesis
    using h f
      SizeOrder_errors [of zeroSize 1337 "\<lparr>ExchangeFee = 0\<rparr>" unsetOrder]
      SizeOrder_errors [of zeroSize 1337 "\<lparr>ExchangeFee = 0\<rparr>" "unsetOrder\<lparr>Direction := Buy\<rparr>"]
    by blast
qed

text \<open>
  C9. With minimum size 0, maximum size 1, maximum total 10, price 10, available
  funds 11, fee rate 0.02 and directional limit 1, \<^verbatim>\<open>calculateBuySize\<close> returns
  0.98, and \<open>10 * 0.98 + 10 * 0.02\<close> is exactly 10.
\<close>

theorem scenario_A_buy_size:
  "calculateBuySize 10 11 (2/100) 1
     \<lparr>MinimumSize = 0, MaximumSize = 1, MaximumTotal = 10\<rparr> = Inr (98/100)
   \<and> (10::decimal) * (98/100) + 10 * (2/100) = 10"
  by (simp add: calculateBuySize_def calculateSize_def fundsCeiling_def totalCeiling_def)

end
